theory Spec2Isabelle
  imports Main "HOL-Library.Word" "HOL-Library.Signed_Division" "HOL-Library.Sublist"
    "HOL-Library.AList"
begin

section \<open>Trace records\<close>

text \<open>
  Modelled from the spec: the record kinds of \<^verbatim>\<open>trace_entry.h\<close> and
  \<^verbatim>\<open>memref.h\<close>, which are not among the sources. The spec lists them as
  instruction, data access, marker and thread-exit records; every other kind is
  \<open>TRACE_TYPE_OTHER\<close>. \<open>type_is_instr\<close> holds of instruction records only.
\<close>

datatype trace_type_t =
  TRACE_TYPE_INSTR
  | TRACE_TYPE_DATA
  | TRACE_TYPE_MARKER
  | TRACE_TYPE_THREAD_EXIT
  | TRACE_TYPE_OTHER

definition type_is_instr :: "trace_type_t \<Rightarrow> bool" where
  "type_is_instr t = (t = TRACE_TYPE_INSTR)"

text \<open>
  Modelled from the spec: the marker subtypes the tool looks at; every other subtype is
  \<open>TRACE_MARKER_TYPE_OTHER\<close>.
\<close>

datatype trace_marker_type_t =
  TRACE_MARKER_TYPE_SYSCALL
  | TRACE_MARKER_TYPE_MAYBE_BLOCKING_SYSCALL
  | TRACE_MARKER_TYPE_DIRECT_THREAD_SWITCH
  | TRACE_MARKER_TYPE_CORE_WAIT
  | TRACE_MARKER_TYPE_OTHER

text \<open>
  \<^verbatim>\<open>memref_t\<close> is a union whose members share the fields \<^verbatim>\<open>type\<close> and
  \<^verbatim>\<open>tid\<close>: \<^verbatim>\<open>memref.marker.type\<close>, \<^verbatim>\<open>memref.instr.type\<close> and
  \<^verbatim>\<open>memref.exit.type\<close> are one field. The marker fields are read only after the
  type has been found to be \<open>TRACE_TYPE_MARKER\<close>. Thread ids are \<^verbatim>\<open>int64_t\<close>, the
  marker value is \<^verbatim>\<open>uintptr_t\<close>.
\<close>

record memref_t =
  type :: trace_type_t
  tid :: int
  marker_type :: trace_marker_type_t
  marker_value :: "64 word"

text \<open>
  What the tool reads of the shard's stream: the core it stands for and the input that
  the record in hand comes from. The host changes the stream between two records, so the
  per-record entry point takes it as an argument.
\<close>

record memtrace_stream_t =
  get_output_cpuid :: int
  get_input_id :: int

section \<open>The tool's state\<close>

text \<open>
  Modelled from the spec: \<^verbatim>\<open>counters_t\<close> and \<^verbatim>\<open>per_shard_t\<close> are declared in
  \<^verbatim>\<open>schedule_stats.h\<close>, which is not among the sources; the fields are the ones
  the code reads and writes. The counters are \<^verbatim>\<open>int64_t\<close>: signed overflow is
  undefined, so they are integers here. \<^verbatim>\<open>cur_segment_instrs\<close> is compared with
  the unsigned knob \<^verbatim>\<open>knob_print_every_\<close> and is a 64-bit word, which wraps.
\<close>

record counters_t =
  threads :: "int set"
  instrs :: int
  total_switches :: int
  voluntary_switches :: int
  direct_switches :: int
  syscalls :: int
  maybe_blocking_syscalls :: int
  direct_switch_requests :: int
  waits :: int

record per_shard_t =
  error :: string
  core :: int
  counters :: counters_t
  prev_input :: int
  saw_maybe_blocking :: bool
  saw_exit :: bool
  direct_switch_target :: int
  thread_sequence :: string
  cur_segment_instrs :: "64 word"
  prev_was_wait :: bool

text \<open>
  The tool object: the members \<^verbatim>\<open>knob_print_every_\<close>, \<^verbatim>\<open>knob_verbose_\<close>,
  \<^verbatim>\<open>error_string_\<close> and \<^verbatim>\<open>shard_map_\<close>, named without the final underscore.
\<close>

record schedule_stats_t =
  knob_print_every :: "64 word"
  knob_verbose :: nat
  error_string :: string
  shard_map :: "(int \<times> per_shard_t) list"

section \<open>Setup\<close>

text \<open>The constructor: the two knobs, no error and no shard.\<close>

definition schedule_stats_tool_create :: "64 word \<Rightarrow> nat \<Rightarrow> schedule_stats_t" where
  "schedule_stats_tool_create print_every verbose =
     \<lparr>knob_print_every = print_every, knob_verbose = verbose, error_string = '''',
      shard_map = []\<rparr>"

text \<open>Modelled from the spec: the two shard types of \<^verbatim>\<open>analysis_tool.h\<close>.\<close>

datatype shard_type_t = SHARD_BY_THREAD | SHARD_BY_CORE

text \<open>The serial stream is a pointer: \<open>None\<close> is \<^verbatim>\<open>nullptr\<close>.\<close>

definition initialize_stream :: "memtrace_stream_t option \<Rightarrow> string" where
  "initialize_stream serial_stream =
     (if serial_stream \<noteq> None then ''Only core-sharded operation is supported''
      else '''')"

definition initialize_shard_type :: "shard_type_t \<Rightarrow> string" where
  "initialize_shard_type shard_type =
     (if shard_type \<noteq> SHARD_BY_CORE then ''Only core-sharded operation is supported''
      else '''')"

definition process_memref :: "schedule_stats_t \<Rightarrow> memref_t \<Rightarrow> bool \<times> schedule_stats_t" where
  "process_memref tool memref =
     (False, tool\<lparr>error_string := ''Only core-sharded operation is supported.''\<rparr>)"

definition parallel_shard_supported :: bool where
  "parallel_shard_supported = True"

section \<open>Shards\<close>

text \<open>
  Modelled from the spec: the default member values of \<^verbatim>\<open>per_shard_t\<close> and
  \<^verbatim>\<open>counters_t\<close> are in the absent header. Counters start at zero, strings
  empty, flags false, \<open>prev_input\<close> at the sentinel "none", for which \<open>- 1\<close> stands (no
  input has that id), and \<open>direct_switch_target\<close> at "none", which is
  \<^verbatim>\<open>INVALID_THREAD_ID\<close>. That constant is declared outside the sources as well and
  is a parameter of every function that uses it.
\<close>

definition new_counters :: counters_t where
  "new_counters =
     \<lparr>threads = {}, instrs = 0, total_switches = 0, voluntary_switches = 0,
      direct_switches = 0, syscalls = 0, maybe_blocking_syscalls = 0,
      direct_switch_requests = 0, waits = 0\<rparr>"

definition new_per_shard :: "int \<Rightarrow> per_shard_t" where
  "new_per_shard INVALID_THREAD_ID =
     \<lparr>error = '''', core = 0, counters = new_counters, prev_input = - 1,
      saw_maybe_blocking = False, saw_exit = False,
      direct_switch_target = INVALID_THREAD_ID, thread_sequence = '''',
      cur_segment_instrs = 0, prev_was_wait = False\<rparr>"

text \<open>
  \<^verbatim>\<open>shard_map_\<close> is an unordered map from the shard index to the shard; here it is
  an association list, and \<^verbatim>\<open>shard_map_[shard_index] = per_shard\<close> replaces the
  entry of a key that is already there. The result pairs the new shard, which the host
  hands back at every record, with the tool.
\<close>

definition parallel_shard_init_stream ::
  "int \<Rightarrow> schedule_stats_t \<Rightarrow> int \<Rightarrow> memtrace_stream_t \<Rightarrow> per_shard_t \<times> schedule_stats_t" where
  "parallel_shard_init_stream INVALID_THREAD_ID tool shard_index stream =
     (let per_shard = (new_per_shard INVALID_THREAD_ID)\<lparr>core := get_output_cpuid stream\<rparr>
      in (per_shard, tool\<lparr>shard_map := AList.update shard_index per_shard (shard_map tool)\<rparr>))"

definition parallel_shard_exit :: "per_shard_t \<Rightarrow> bool" where
  "parallel_shard_exit shard_data = True"

definition parallel_shard_error :: "per_shard_t \<Rightarrow> string" where
  "parallel_shard_error per_shard = error per_shard"

section \<open>The per-record entry point\<close>

definition THREAD_LETTER_START :: char where
  "THREAD_LETTER_START = CHR ''A''"

definition THREAD_SEPARATOR :: char where
  "THREAD_SEPARATOR = CHR '',''"

definition WAIT_SYMBOL :: char where
  "WAIT_SYMBOL = CHR ''-''"

text \<open>
  \<^verbatim>\<open>THREAD_LETTER_START + static_cast<char>(input % 26)\<close>, appended to the string
  as one character. \<^verbatim>\<open>%\<close> truncates towards zero (\<open>smod\<close>), so a negative input
  gives a character before the letter A.
\<close>

definition thread_letter :: "int \<Rightarrow> char" where
  "thread_letter input = char_of (of_char THREAD_LETTER_START + input smod 26)"

text \<open>
  The branch of a \<open>TRACE_MARKER_TYPE_CORE_WAIT\<close> marker (lines 164 to 174 of
  \<^verbatim>\<open>schedule_stats.cpp\<close>).
\<close>

definition core_wait :: "schedule_stats_t \<Rightarrow> per_shard_t \<Rightarrow> per_shard_t" where
  "core_wait tool shard0 =
     (let shard = shard0\<lparr>counters := (counters shard0)\<lparr>waits := waits (counters shard0) + 1\<rparr>\<rparr>
      in if \<not> prev_was_wait shard
         then shard\<lparr>thread_sequence := thread_sequence shard @ ''-'',
                    cur_segment_instrs := 0,
                    prev_was_wait := True\<rparr>
         else
           (let shard = shard\<lparr>cur_segment_instrs := cur_segment_instrs shard + 1\<rparr>
            in if cur_segment_instrs shard = knob_print_every tool
               then shard\<lparr>thread_sequence := thread_sequence shard @ [WAIT_SYMBOL]\<rparr>
               else shard))"

text \<open>The input of the record differs from the previous one (lines 178 to 211).\<close>

definition input_change :: "int \<Rightarrow> memref_t \<Rightarrow> per_shard_t \<Rightarrow> per_shard_t" where
  "input_change input memref shard0 =
     (if input \<noteq> prev_input shard0
      then
        (let shard =
           (if thread_sequence shard0 \<noteq> []
            then
              (let c = counters shard0;
                   c = c\<lparr>total_switches := total_switches c + 1\<rparr>;
                   c = (if saw_maybe_blocking shard0 \<or> saw_exit shard0
                        then c\<lparr>voluntary_switches := voluntary_switches c + 1\<rparr> else c);
                   c = (if direct_switch_target shard0 = tid memref
                        then c\<lparr>direct_switches := direct_switches c + 1\<rparr> else c)
               in shard0\<lparr>counters := c,
                          thread_sequence := thread_sequence shard0 @ [THREAD_SEPARATOR]\<rparr>)
            else shard0)
         in shard\<lparr>thread_sequence := thread_sequence shard @ [thread_letter input],
                    cur_segment_instrs := 0,
                    prev_input := input\<rparr>)
      else shard0)"

text \<open>An instruction record (lines 212 to 222).\<close>

definition instr_record ::
  "int \<Rightarrow> schedule_stats_t \<Rightarrow> int \<Rightarrow> memref_t \<Rightarrow> per_shard_t \<Rightarrow> per_shard_t" where
  "instr_record INVALID_THREAD_ID tool input memref shard0 =
     (if type_is_instr (type memref)
      then
        (let shard = shard0\<lparr>counters := (counters shard0)\<lparr>instrs := instrs (counters shard0) + 1\<rparr>,
                             cur_segment_instrs := cur_segment_instrs shard0 + 1\<rparr>;
             shard = (if cur_segment_instrs shard = knob_print_every tool
                      then shard\<lparr>thread_sequence := thread_sequence shard @ [thread_letter input],
                                 cur_segment_instrs := 0\<rparr>
                      else shard)
         in shard\<lparr>direct_switch_target := INVALID_THREAD_ID,
                    saw_maybe_blocking := False,
                    saw_exit := False\<rparr>)
      else shard0)"

text \<open>The thread of the record (lines 223 and 224).\<close>

definition thread_seen :: "int \<Rightarrow> memref_t \<Rightarrow> per_shard_t \<Rightarrow> per_shard_t" where
  "thread_seen INVALID_THREAD_ID memref shard =
     (if tid memref \<noteq> INVALID_THREAD_ID
      then shard\<lparr>counters := (counters shard)\<lparr>threads := insert (tid memref) (threads (counters shard))\<rparr>\<rparr>
      else shard)"

text \<open>
  Markers and thread exits (lines 225 to 237). The marker value, a \<^verbatim>\<open>uintptr_t\<close>,
  is stored in the \<^verbatim>\<open>int64_t\<close> \<open>direct_switch_target\<close>: \<open>sint\<close>.
\<close>

definition marker_or_exit :: "memref_t \<Rightarrow> per_shard_t \<Rightarrow> per_shard_t" where
  "marker_or_exit memref shard0 =
     (if type memref = TRACE_TYPE_MARKER
      then
        (let shard =
           (if marker_type memref = TRACE_MARKER_TYPE_SYSCALL
            then shard0\<lparr>counters := (counters shard0)\<lparr>syscalls := syscalls (counters shard0) + 1\<rparr>\<rparr>
            else shard0);
             shard =
           (if marker_type memref = TRACE_MARKER_TYPE_MAYBE_BLOCKING_SYSCALL
            then shard\<lparr>counters := (counters shard)
                         \<lparr>maybe_blocking_syscalls := maybe_blocking_syscalls (counters shard) + 1\<rparr>,
                       saw_maybe_blocking := True\<rparr>
            else shard)
         in if marker_type memref = TRACE_MARKER_TYPE_DIRECT_THREAD_SWITCH
            then shard\<lparr>counters := (counters shard)
                         \<lparr>direct_switch_requests := direct_switch_requests (counters shard) + 1\<rparr>,
                       direct_switch_target := sint (marker_value memref)\<rparr>
            else shard)
      else if type memref = TRACE_TYPE_THREAD_EXIT
      then shard0\<lparr>saw_exit := True\<rparr>
      else shard0)"

text \<open>
  \<^verbatim>\<open>schedule_stats_t::parallel_shard_memref\<close>. The diagnostic lines that a verbosity
  of 2 or more writes to the error stream change no state and are left out. The result
  is the returned flag and the shard as the call leaves it.
\<close>

definition parallel_shard_memref ::
  "int \<Rightarrow> schedule_stats_t \<Rightarrow> memtrace_stream_t \<Rightarrow> per_shard_t \<Rightarrow> memref_t
     \<Rightarrow> bool \<times> per_shard_t" where
  "parallel_shard_memref INVALID_THREAD_ID tool stream shard memref =
     (if type memref = TRACE_TYPE_MARKER \<and> marker_type memref = TRACE_MARKER_TYPE_CORE_WAIT
      then (True, core_wait tool shard)
      else
        (let input = get_input_id stream;
             shard = input_change input memref shard;
             shard = instr_record INVALID_THREAD_ID tool input memref shard;
             shard = thread_seen INVALID_THREAD_ID memref shard;
             shard = marker_or_exit memref shard
         in (True, shard\<lparr>prev_was_wait := False\<rparr>)))"

text \<open>
  Modelled from the spec: the host, which is not among the sources, "repeatedly feeds
  records for that core to the Per-Record Classifier" in delivery order; it stops at a
  record for which the entry point returns false.
\<close>

fun process_records ::
  "int \<Rightarrow> schedule_stats_t \<Rightarrow> per_shard_t \<Rightarrow> (memtrace_stream_t \<times> memref_t) list
     \<Rightarrow> bool \<times> per_shard_t" where
  "process_records INVALID_THREAD_ID tool shard [] = (True, shard)"
| "process_records INVALID_THREAD_ID tool shard ((stream, memref) # rest) =
     (case parallel_shard_memref INVALID_THREAD_ID tool stream shard memref of
        (ok, shard') \<Rightarrow>
          if ok then process_records INVALID_THREAD_ID tool shard' rest else (False, shard'))"

section \<open>The report\<close>

text \<open>
  The report goes to the error stream; here it is the list of the lines written. A count
  is the number and its label. A derived ratio is computed in \<^verbatim>\<open>double\<close>, which
  is not modelled: its line keeps the factor, the numerator and the denominator of the
  division that the code performs, so that \<open>Quotient_line f n d l\<close> stands for the
  printed value of \<open>f * (n / d)\<close>. Column widths and precisions are left out.
\<close>

datatype line_t =
  Text_line string
  | Count_line int string
  | Quotient_line int int int string
  | Core_counts_line int
  | Core_schedule_line int string

definition TOOL_NAME :: string where
  "TOOL_NAME = ''Schedule stats tool''"

definition print_counters :: "counters_t \<Rightarrow> line_t list" where
  "print_counters c =
     [Count_line (int (card (threads c))) '' threads'',
      Count_line (instrs c) '' instructions'',
      Count_line (total_switches c) '' total context switches'',
      Quotient_line 1 (1000 * total_switches c) (instrs c)
        '' CSPKI (context switches per 1000 instructions)'',
      Quotient_line 1 (instrs c) (total_switches c) '' instructions per context switch'',
      Count_line (voluntary_switches c) '' voluntary context switches'',
      Count_line (direct_switches c) '' direct context switches'']
     @ (if total_switches c > 0
        then [Quotient_line 100 (voluntary_switches c) (total_switches c) ''% voluntary switches'',
              Quotient_line 100 (direct_switches c) (total_switches c) ''% direct switches'']
        else [])
     @ [Count_line (syscalls c) '' system calls'',
        Count_line (maybe_blocking_syscalls c) '' maybe-blocking system calls'',
        Count_line (direct_switch_requests c) '' direct switch requests'',
        Count_line (waits c) '' waits'']"

text \<open>The denominators of the divisions that a list of lines stands for.\<close>

fun denominators :: "line_t list \<Rightarrow> int list" where
  "denominators [] = []"
| "denominators (Quotient_line f n d l # ls) = d # denominators ls"
| "denominators (other # ls) = denominators ls"

text \<open>
  Modelled from the spec: \<^verbatim>\<open>counters_t::operator+=\<close> is defined in the absent
  header \<^verbatim>\<open>schedule_stats.h\<close>; the spec has it as the "element-wise sum of every
  counter", with the sets of thread ids united.
\<close>

definition counters_add :: "counters_t \<Rightarrow> counters_t \<Rightarrow> counters_t" where
  "counters_add tot rhs =
     \<lparr>threads = threads tot \<union> threads rhs,
      instrs = instrs tot + instrs rhs,
      total_switches = total_switches tot + total_switches rhs,
      voluntary_switches = voluntary_switches tot + voluntary_switches rhs,
      direct_switches = direct_switches tot + direct_switches rhs,
      syscalls = syscalls tot + syscalls rhs,
      maybe_blocking_syscalls = maybe_blocking_syscalls tot + maybe_blocking_syscalls rhs,
      direct_switch_requests = direct_switch_requests tot + direct_switch_requests rhs,
      waits = waits tot + waits rhs\<rparr>"

text \<open>
  The first loop of \<^verbatim>\<open>print_results\<close> (lines 282 to 285): a default-constructed
  \<^verbatim>\<open>counters_t\<close> to which every shard of the map is added, in the map's order.
\<close>

fun add_shards :: "counters_t \<Rightarrow> (int \<times> per_shard_t) list \<Rightarrow> counters_t" where
  "add_shards tot [] = tot"
| "add_shards tot (shard # rest) = add_shards (counters_add tot (counters (snd shard))) rest"

definition print_results :: "schedule_stats_t \<Rightarrow> bool \<times> line_t list" where
  "print_results tool =
     (let tot = add_shards new_counters (shard_map tool)
      in (True,
          [Text_line (TOOL_NAME @ '' results:''), Text_line ''Total counts:'',
           Count_line (int (length (shard_map tool))) '' cores'']
          @ print_counters tot
          @ concat (map (\<lambda>shard. Core_counts_line (core (snd shard))
                                    # print_counters (counters (snd shard)))
                     (shard_map tool))
          @ map (\<lambda>shard. Core_schedule_line (core (snd shard)) (thread_sequence (snd shard)))
              (shard_map tool)))"

section \<open>Vocabulary of the properties\<close>

text \<open>The kinds of record that the entry point tells apart.\<close>

definition is_core_wait :: "memref_t \<Rightarrow> bool" where
  "is_core_wait memref =
     (type memref = TRACE_TYPE_MARKER \<and> marker_type memref = TRACE_MARKER_TYPE_CORE_WAIT)"

definition is_maybe_blocking :: "memref_t \<Rightarrow> bool" where
  "is_maybe_blocking memref =
     (type memref = TRACE_TYPE_MARKER
      \<and> marker_type memref = TRACE_MARKER_TYPE_MAYBE_BLOCKING_SYSCALL)"

definition is_direct_switch :: "memref_t \<Rightarrow> bool" where
  "is_direct_switch memref =
     (type memref = TRACE_TYPE_MARKER
      \<and> marker_type memref = TRACE_MARKER_TYPE_DIRECT_THREAD_SWITCH)"

definition is_thread_exit :: "memref_t \<Rightarrow> bool" where
  "is_thread_exit memref = (type memref = TRACE_TYPE_THREAD_EXIT)"

text \<open>Records and streams for the examples.\<close>

definition instr_memref :: "int \<Rightarrow> memref_t" where
  "instr_memref t =
     \<lparr>type = TRACE_TYPE_INSTR, tid = t, marker_type = TRACE_MARKER_TYPE_OTHER,
      marker_value = 0\<rparr>"

definition marker_memref :: "int \<Rightarrow> trace_marker_type_t \<Rightarrow> 64 word \<Rightarrow> memref_t" where
  "marker_memref t m v =
     \<lparr>type = TRACE_TYPE_MARKER, tid = t, marker_type = m, marker_value = v\<rparr>"

definition stream_on :: "int \<Rightarrow> memtrace_stream_t" where
  "stream_on input = \<lparr>get_output_cpuid = 0, get_input_id = input\<rparr>"

text \<open>
  A sequence of instruction records, all delivered while the stream is on one input.
\<close>

definition instrs_of_input :: "int \<Rightarrow> (memtrace_stream_t \<times> memref_t) list \<Rightarrow> bool" where
  "instrs_of_input input rs =
     list_all (\<lambda>r. type_is_instr (type (snd r)) \<and> get_input_id (fst r) = input) rs"

text \<open>
  The records processed after the last instruction record, and the thread that the last
  direct-switch marker among some records names: \<^verbatim>\<open>INVALID_THREAD_ID\<close> when there is
  none.
\<close>

definition since_last_instr :: "memref_t list \<Rightarrow> memref_t list" where
  "since_last_instr ms = rev (takeWhile (\<lambda>m. \<not> type_is_instr (type m)) (rev ms))"

definition last_direct_target :: "int \<Rightarrow> memref_t list \<Rightarrow> int" where
  "last_direct_target INVALID_THREAD_ID ms =
     (case filter is_direct_switch (rev ms) of
        [] \<Rightarrow> INVALID_THREAD_ID
      | m # earlier \<Rightarrow> sint (marker_value m))"

text \<open>A run of core-wait markers.\<close>

definition core_waits :: "(memtrace_stream_t \<times> memref_t) list \<Rightarrow> bool" where
  "core_waits rs = list_all (\<lambda>r. is_core_wait (snd r)) rs"

section \<open>Properties of the per-record entry point\<close>

lemma core_wait_error: "error (core_wait tool shard) = error shard"
  by (simp add: core_wait_def Let_def)

lemma input_change_error: "error (input_change input memref shard) = error shard"
  by (simp add: input_change_def Let_def)

lemma instr_record_error: "error (instr_record ivt tool input memref shard) = error shard"
  by (simp add: instr_record_def Let_def)

lemma thread_seen_error: "error (thread_seen ivt memref shard) = error shard"
  by (simp add: thread_seen_def)

lemma marker_or_exit_error: "error (marker_or_exit memref shard) = error shard"
  by (simp add: marker_or_exit_def Let_def)

lemma parallel_shard_memref_ok: "fst (parallel_shard_memref ivt tool stream shard memref)"
  by (simp add: parallel_shard_memref_def Let_def)

lemma parallel_shard_memref_error:
  "error (snd (parallel_shard_memref ivt tool stream shard memref)) = error shard"
  by (simp add: parallel_shard_memref_def Let_def core_wait_error input_change_error
      instr_record_error thread_seen_error marker_or_exit_error)

lemma process_records_ok_error:
  "fst (process_records ivt tool shard rs) \<and> error (snd (process_records ivt tool shard rs)) = error shard"
proof (induction rs arbitrary: shard)
  case Nil
  show ?case by simp
next
  case (Cons r rs)
  obtain stream memref where r: "r = (stream, memref)" by (cases r)
  obtain ok shard' where step: "parallel_shard_memref ivt tool stream shard memref = (ok, shard')"
    by (cases "parallel_shard_memref ivt tool stream shard memref")
  have ok: "ok" using parallel_shard_memref_ok [of ivt tool stream shard memref] step by simp
  have err: "error shard' = error shard"
    using parallel_shard_memref_error [of ivt tool stream shard memref] step by simp
  show ?case using Cons.IH [of shard'] r step ok err by simp
qed

lemma parallel_shard_memref_wait:
  "is_core_wait memref \<Longrightarrow>
   parallel_shard_memref ivt tool stream shard memref = (True, core_wait tool shard)"
  by (simp add: parallel_shard_memref_def is_core_wait_def)

lemma parallel_shard_memref_other:
  "\<not> is_core_wait memref \<Longrightarrow>
   parallel_shard_memref ivt tool stream shard memref =
     (True, (marker_or_exit memref (thread_seen ivt memref
        (instr_record ivt tool (get_input_id stream) memref
           (input_change (get_input_id stream) memref shard))))\<lparr>prev_was_wait := False\<rparr>)"
  by (auto simp add: parallel_shard_memref_def is_core_wait_def Let_def)

lemma core_wait_prefix: "prefix (thread_sequence shard) (thread_sequence (core_wait tool shard))"
  by (simp add: core_wait_def Let_def)

lemma input_change_prefix:
  "prefix (thread_sequence shard) (thread_sequence (input_change input memref shard))"
  by (simp add: input_change_def Let_def prefix_def)

lemma instr_record_prefix:
  "prefix (thread_sequence shard) (thread_sequence (instr_record ivt tool input memref shard))"
  by (simp add: instr_record_def Let_def)

lemma thread_seen_sequence:
  "thread_sequence (thread_seen ivt memref shard) = thread_sequence shard"
  by (simp add: thread_seen_def)

lemma marker_or_exit_sequence:
  "thread_sequence (marker_or_exit memref shard) = thread_sequence shard"
  by (simp add: marker_or_exit_def Let_def)

subsection \<open>What each step does to each field\<close>

lemma input_change_fields:
  "thread_sequence (input_change i m s) =
     thread_sequence s @
       (if i \<noteq> prev_input s
        then (if thread_sequence s \<noteq> [] then [THREAD_SEPARATOR] else []) @ [thread_letter i]
        else [])"
  "cur_segment_instrs (input_change i m s) = (if i \<noteq> prev_input s then 0 else cur_segment_instrs s)"
  "prev_input (input_change i m s) = i"
  "saw_maybe_blocking (input_change i m s) = saw_maybe_blocking s"
  "saw_exit (input_change i m s) = saw_exit s"
  "direct_switch_target (input_change i m s) = direct_switch_target s"
  by (simp_all add: input_change_def Let_def)

lemma input_change_counters:
  "total_switches (counters (input_change i m s)) =
     total_switches (counters s) + (if i \<noteq> prev_input s \<and> thread_sequence s \<noteq> [] then 1 else 0)"
  "voluntary_switches (counters (input_change i m s)) =
     voluntary_switches (counters s) +
       (if i \<noteq> prev_input s \<and> thread_sequence s \<noteq> [] \<and> (saw_maybe_blocking s \<or> saw_exit s)
        then 1 else 0)"
  "direct_switches (counters (input_change i m s)) =
     direct_switches (counters s) +
       (if i \<noteq> prev_input s \<and> thread_sequence s \<noteq> [] \<and> direct_switch_target s = tid m
        then 1 else 0)"
  "instrs (counters (input_change i m s)) = instrs (counters s)"
  by (simp_all add: input_change_def Let_def)

lemma instr_record_fields:
  "thread_sequence (instr_record ivt tool i m s) =
     thread_sequence s @
       (if type_is_instr (type m) \<and> cur_segment_instrs s + 1 = knob_print_every tool
        then [thread_letter i] else [])"
  "cur_segment_instrs (instr_record ivt tool i m s) =
     (if type_is_instr (type m)
      then (if cur_segment_instrs s + 1 = knob_print_every tool then 0 else cur_segment_instrs s + 1)
      else cur_segment_instrs s)"
  "prev_input (instr_record ivt tool i m s) = prev_input s"
  "saw_maybe_blocking (instr_record ivt tool i m s) = (\<not> type_is_instr (type m) \<and> saw_maybe_blocking s)"
  "saw_exit (instr_record ivt tool i m s) = (\<not> type_is_instr (type m) \<and> saw_exit s)"
  "direct_switch_target (instr_record ivt tool i m s) =
     (if type_is_instr (type m) then ivt else direct_switch_target s)"
  by (simp_all add: instr_record_def Let_def)

lemma instr_record_counters:
  "total_switches (counters (instr_record ivt tool i m s)) = total_switches (counters s)"
  "voluntary_switches (counters (instr_record ivt tool i m s)) = voluntary_switches (counters s)"
  "direct_switches (counters (instr_record ivt tool i m s)) = direct_switches (counters s)"
  "instrs (counters (instr_record ivt tool i m s)) =
     instrs (counters s) + (if type_is_instr (type m) then 1 else 0)"
  by (simp_all add: instr_record_def Let_def)

lemma thread_seen_fields:
  "thread_sequence (thread_seen ivt m s) = thread_sequence s"
  "cur_segment_instrs (thread_seen ivt m s) = cur_segment_instrs s"
  "prev_input (thread_seen ivt m s) = prev_input s"
  "saw_maybe_blocking (thread_seen ivt m s) = saw_maybe_blocking s"
  "saw_exit (thread_seen ivt m s) = saw_exit s"
  "direct_switch_target (thread_seen ivt m s) = direct_switch_target s"
  "total_switches (counters (thread_seen ivt m s)) = total_switches (counters s)"
  "voluntary_switches (counters (thread_seen ivt m s)) = voluntary_switches (counters s)"
  "direct_switches (counters (thread_seen ivt m s)) = direct_switches (counters s)"
  "instrs (counters (thread_seen ivt m s)) = instrs (counters s)"
  by (simp_all add: thread_seen_def)

lemma marker_or_exit_fields:
  "thread_sequence (marker_or_exit m s) = thread_sequence s"
  "cur_segment_instrs (marker_or_exit m s) = cur_segment_instrs s"
  "prev_input (marker_or_exit m s) = prev_input s"
  "saw_maybe_blocking (marker_or_exit m s) = (is_maybe_blocking m \<or> saw_maybe_blocking s)"
  "saw_exit (marker_or_exit m s) = (is_thread_exit m \<or> saw_exit s)"
  "direct_switch_target (marker_or_exit m s) =
     (if is_direct_switch m then sint (marker_value m) else direct_switch_target s)"
  "total_switches (counters (marker_or_exit m s)) = total_switches (counters s)"
  "voluntary_switches (counters (marker_or_exit m s)) = voluntary_switches (counters s)"
  "direct_switches (counters (marker_or_exit m s)) = direct_switches (counters s)"
  "instrs (counters (marker_or_exit m s)) = instrs (counters s)"
  by (auto simp add: marker_or_exit_def Let_def is_maybe_blocking_def is_thread_exit_def
      is_direct_switch_def)

lemma core_wait_fields:
  "thread_sequence (core_wait tool s) =
     thread_sequence s @
       (if \<not> prev_was_wait s \<or> cur_segment_instrs s + 1 = knob_print_every tool
        then [WAIT_SYMBOL] else [])"
  "cur_segment_instrs (core_wait tool s) = (if prev_was_wait s then cur_segment_instrs s + 1 else 0)"
  "prev_was_wait (core_wait tool s) = True"
  "waits (counters (core_wait tool s)) = waits (counters s) + 1"
  "prev_input (core_wait tool s) = prev_input s"
  "saw_maybe_blocking (core_wait tool s) = saw_maybe_blocking s"
  "saw_exit (core_wait tool s) = saw_exit s"
  "direct_switch_target (core_wait tool s) = direct_switch_target s"
  "total_switches (counters (core_wait tool s)) = total_switches (counters s)"
  "voluntary_switches (counters (core_wait tool s)) = voluntary_switches (counters s)"
  "direct_switches (counters (core_wait tool s)) = direct_switches (counters s)"
  "instrs (counters (core_wait tool s)) = instrs (counters s)"
  by (simp_all add: core_wait_def Let_def WAIT_SYMBOL_def)

lemma thread_letter_eq:
  "thread_letter input =
     char_of (of_char (CHR ''A'') + (if 0 \<le> input then input mod 26 else - ((- input) mod 26)))"
proof -
  have "input smod 26 = (if 0 \<le> input then input mod 26 else - ((- input) mod 26))"
    by (cases "input = 0") (auto simp add: signed_modulo_int_def sgn_if abs_if)
  then show ?thesis
    unfolding thread_letter_def THREAD_LETTER_START_def by (rule arg_cong)
qed

lemma thread_letter_values:
  "thread_letter 0 = CHR ''A''" "thread_letter 1 = CHR ''B''" "thread_letter 2 = CHR ''C''"
  by (simp_all add: thread_letter_def THREAD_LETTER_START_def signed_modulo_int_def char_of_def)

lemmas run_defs =
  parallel_shard_memref_def core_wait_def input_change_def instr_record_def thread_seen_def
  marker_or_exit_def type_is_instr_def schedule_stats_tool_create_def stream_on_def
  instr_memref_def marker_memref_def new_per_shard_def new_counters_def Let_def
  thread_letter_values THREAD_SEPARATOR_def WAIT_SYMBOL_def

text \<open>
  Claim C8. The timeline is append-only: for every shard and every record, the shard's
  \<open>thread_sequence\<close> before the call of the per-record entry point is a prefix of the one
  after it.
\<close>

theorem thread_sequence_append_only:
  "prefix (thread_sequence shard)
     (thread_sequence (snd (parallel_shard_memref ivt tool stream shard memref)))"
proof (cases "is_core_wait memref")
  case True
  then show ?thesis
    by (simp add: parallel_shard_memref_wait core_wait_prefix)
next
  case False
  define s1 where "s1 = input_change (get_input_id stream) memref shard"
  define s2 where "s2 = instr_record ivt tool (get_input_id stream) memref s1"
  have "prefix (thread_sequence shard) (thread_sequence s1)"
    unfolding s1_def by (rule input_change_prefix)
  moreover have "prefix (thread_sequence s1) (thread_sequence s2)"
    unfolding s2_def by (rule instr_record_prefix)
  ultimately have "prefix (thread_sequence shard) (thread_sequence s2)"
    by (rule prefix_order.trans)
  with False show ?thesis
    by (simp add: parallel_shard_memref_other thread_seen_sequence
        marker_or_exit_sequence s1_def s2_def)
qed

theorem thread_sequence_append_only_witness:
  "prefix ''A,B''
     (thread_sequence (snd (parallel_shard_memref 0
        \<lparr>knob_print_every = 3, knob_verbose = 0, error_string = '''', shard_map = []\<rparr>
        \<lparr>get_output_cpuid = 0, get_input_id = 1\<rparr>
        ((new_per_shard 0)\<lparr>thread_sequence := ''A,B'', prev_input := 1\<rparr>)
        \<lparr>type = TRACE_TYPE_MARKER, tid = 7, marker_type = TRACE_MARKER_TYPE_CORE_WAIT,
          marker_value = 0\<rparr>)))"
  using thread_sequence_append_only [of "(new_per_shard 0)\<lparr>thread_sequence := ''A,B'', prev_input := 1\<rparr>"
     0 "\<lparr>knob_print_every = 3, knob_verbose = 0, error_string = '''', shard_map = []\<rparr>"
     "\<lparr>get_output_cpuid = 0, get_input_id = 1\<rparr>"
     "\<lparr>type = TRACE_TYPE_MARKER, tid = 7, marker_type = TRACE_MARKER_TYPE_CORE_WAIT,
          marker_value = 0\<rparr>"]
  by simp

text \<open>
  Claim C6. Single-stream operation is rejected at setup: a serial stream that is not
  null and a shard type other than by-core give the message of the tool, which is not
  empty; a null serial stream and the by-core shard type give the empty string; the
  serial per-record entry point returns false and stores its message.
\<close>

theorem single_stream_rejected:
  "initialize_stream (Some serial_stream) = ''Only core-sharded operation is supported''
   \<and> initialize_stream (Some serial_stream) \<noteq> ''''
   \<and> initialize_stream None = ''''
   \<and> initialize_shard_type SHARD_BY_THREAD = ''Only core-sharded operation is supported''
   \<and> (initialize_shard_type shard_type = '''') = (shard_type = SHARD_BY_CORE)
   \<and> fst (process_memref tool memref) = False
   \<and> error_string (snd (process_memref tool memref))
       = ''Only core-sharded operation is supported.''
   \<and> error_string (snd (process_memref tool memref)) \<noteq> ''''"
  by (simp add: initialize_stream_def initialize_shard_type_def process_memref_def)

text \<open>
  Claim C10. The parallel per-record entry point never reports failure and never records
  a shard-local error: for every shard and every record it returns true and leaves the
  shard's error message as it was, so after any sequence of records the error query
  returns what it returned before, which for a shard fresh from registration is the
  empty string.
\<close>

theorem parallel_shard_memref_never_fails:
  "fst (parallel_shard_memref ivt tool stream shard memref)
   \<and> parallel_shard_error (snd (parallel_shard_memref ivt tool stream shard memref))
       = parallel_shard_error shard
   \<and> fst (process_records ivt tool shard rs)
   \<and> parallel_shard_error (snd (process_records ivt tool shard rs)) = parallel_shard_error shard
   \<and> parallel_shard_error
       (snd (process_records ivt tool (fst (parallel_shard_init_stream ivt tool0 k stream0)) rs))
       = ''''"
proof -
  have fresh: "error (fst (parallel_shard_init_stream ivt tool0 k stream0)) = ''''"
    by (simp add: parallel_shard_init_stream_def new_per_shard_def Let_def)
  show ?thesis
    unfolding parallel_shard_error_def
    using parallel_shard_memref_ok [of ivt tool stream shard memref]
      parallel_shard_memref_error [of ivt tool stream shard memref]
      process_records_ok_error [of ivt tool shard rs]
      process_records_ok_error [of ivt tool "fst (parallel_shard_init_stream ivt tool0 k stream0)" rs]
      fresh
    by simp
qed

text \<open>
  Claim C2, as amended. When a record that is not a core wait arrives while the stream's
  input Y differs from \<open>prev_input\<close> and the timeline is not empty, the input-change step
  appends exactly one separator and one letter for Y, adds one to \<open>total_switches\<close>, sets
  \<open>cur_segment_instrs\<close> to 0 and \<open>prev_input\<close> to Y. Over the whole record the switch
  count and \<open>prev_input\<close> are as the step leaves them; when the record is itself an
  instruction, the instruction step that follows counts it, so that the segment count ends
  at 1, or, with a quantum of 1, at 0 with the letter for Y appended a second time. The
  letter is A plus Y mod 26 for Y from 0 on, and A minus (- Y) mod 26 below 0.
\<close>

theorem switch_appends_separator_and_letter:
  assumes "\<not> is_core_wait memref"
    and "get_input_id stream \<noteq> prev_input shard"
    and "thread_sequence shard \<noteq> []"
  shows
    "thread_sequence (input_change (get_input_id stream) memref shard)
       = thread_sequence shard @ [THREAD_SEPARATOR, thread_letter (get_input_id stream)]
     \<and> total_switches (counters (input_change (get_input_id stream) memref shard))
       = total_switches (counters shard) + 1
     \<and> cur_segment_instrs (input_change (get_input_id stream) memref shard) = 0
     \<and> prev_input (input_change (get_input_id stream) memref shard) = get_input_id stream
     \<and> thread_sequence (snd (parallel_shard_memref ivt tool stream shard memref))
       = thread_sequence shard @ [THREAD_SEPARATOR, thread_letter (get_input_id stream)]
         @ (if type_is_instr (type memref) \<and> knob_print_every tool = 1
            then [thread_letter (get_input_id stream)] else [])
     \<and> total_switches (counters (snd (parallel_shard_memref ivt tool stream shard memref)))
       = total_switches (counters shard) + 1
     \<and> cur_segment_instrs (snd (parallel_shard_memref ivt tool stream shard memref))
       = (if type_is_instr (type memref) \<and> knob_print_every tool \<noteq> 1 then 1 else 0)
     \<and> prev_input (snd (parallel_shard_memref ivt tool stream shard memref))
       = get_input_id stream
     \<and> THREAD_SEPARATOR = CHR '',''
     \<and> thread_letter (get_input_id stream)
       = char_of (of_char (CHR ''A'')
           + (if 0 \<le> get_input_id stream then get_input_id stream mod 26
              else - ((- get_input_id stream) mod 26)))"
  by (intro conjI;
      (rule thread_letter_eq
       | insert assms, simp add: parallel_shard_memref_other input_change_fields input_change_counters
           instr_record_fields instr_record_counters thread_seen_fields marker_or_exit_fields
           THREAD_SEPARATOR_def))

text \<open>
  The claim as first stated, for the whole record: with a quantum of 1 an instruction
  record that switches from input 0 to input 1 appends a separator and two letters, and
  with a quantum of 3 it leaves the segment count at 1 and not at 0.
\<close>

theorem switch_appends_separator_and_letter_counterexample:
  "thread_sequence (snd (process_records 0 (schedule_stats_tool_create 1 0) (new_per_shard 0)
       [(stream_on 0, instr_memref 5)])) = ''AA''
   \<and> thread_sequence (snd (process_records 0 (schedule_stats_tool_create 1 0) (new_per_shard 0)
       [(stream_on 0, instr_memref 5), (stream_on 1, instr_memref 8)])) = ''AA,BB''
   \<and> thread_sequence (snd (process_records 0 (schedule_stats_tool_create 1 0) (new_per_shard 0)
       [(stream_on 0, instr_memref 5), (stream_on 1, instr_memref 8)])) \<noteq> ''AA'' @ '',B''
   \<and> cur_segment_instrs (snd (process_records 0 (schedule_stats_tool_create 3 0) (new_per_shard 0)
       [(stream_on 0, instr_memref 5), (stream_on 1, instr_memref 8)])) = 1"
  by (simp add: run_defs)

theorem switch_appends_separator_and_letter_witness:
  "thread_sequence (snd (parallel_shard_memref 0 (schedule_stats_tool_create 3 0) (stream_on 1)
       ((new_per_shard 0)\<lparr>thread_sequence := ''AA'', prev_input := 0\<rparr>) (instr_memref 8)))
     = ''AA,B''
   \<and> total_switches (counters (snd (parallel_shard_memref 0 (schedule_stats_tool_create 3 0)
       (stream_on 1) ((new_per_shard 0)\<lparr>thread_sequence := ''AA'', prev_input := 0\<rparr>)
       (instr_memref 8)))) = 1
   \<and> cur_segment_instrs (snd (parallel_shard_memref 0 (schedule_stats_tool_create 3 0)
       (stream_on 1) ((new_per_shard 0)\<lparr>thread_sequence := ''AA'', prev_input := 0\<rparr>)
       (instr_memref 8))) = 1"
  using switch_appends_separator_and_letter [of "instr_memref 8" "stream_on 1"
      "(new_per_shard 0)\<lparr>thread_sequence := ''AA'', prev_input := 0\<rparr>" 0
      "schedule_stats_tool_create 3 0"]
  by (simp add: is_core_wait_def instr_memref_def stream_on_def new_per_shard_def
      new_counters_def schedule_stats_tool_create_def type_is_instr_def thread_letter_values
      THREAD_SEPARATOR_def)

text \<open>
  Claim C9, as amended. The boundary flags are cleared at instruction records only: a
  record that is not an instruction leaves \<open>saw_maybe_blocking\<close> and \<open>saw_exit\<close> set
  where they were set, sets them exactly at a maybe-blocking marker and at a thread exit,
  and changes \<open>direct_switch_target\<close> only at a direct-switch marker, to the marker's value.
  \<open>cur_segment_instrs\<close> is set to 0 by the first core wait of a run and by a record whose
  input differs from \<open>prev_input\<close>, is incremented by a later core wait of a run, and is left
  as it was by every other record that is not an instruction.
\<close>

theorem non_instruction_record_keeps_flags:
  assumes "\<not> type_is_instr (type memref)"
  shows
    "saw_maybe_blocking (snd (parallel_shard_memref ivt tool stream shard memref))
       = (saw_maybe_blocking shard \<or> is_maybe_blocking memref)
     \<and> saw_exit (snd (parallel_shard_memref ivt tool stream shard memref))
       = (saw_exit shard \<or> is_thread_exit memref)
     \<and> direct_switch_target (snd (parallel_shard_memref ivt tool stream shard memref))
       = (if is_direct_switch memref then sint (marker_value memref)
          else direct_switch_target shard)
     \<and> cur_segment_instrs (snd (parallel_shard_memref ivt tool stream shard memref))
       = (if is_core_wait memref
          then (if prev_was_wait shard then cur_segment_instrs shard + 1 else 0)
          else if get_input_id stream \<noteq> prev_input shard then 0
          else cur_segment_instrs shard)"
proof (cases "is_core_wait memref")
  case True
  then have "\<not> is_maybe_blocking memref" "\<not> is_thread_exit memref" "\<not> is_direct_switch memref"
    by (simp_all add: is_core_wait_def is_maybe_blocking_def is_thread_exit_def
        is_direct_switch_def)
  with True show ?thesis
    by (simp add: parallel_shard_memref_wait core_wait_fields)
next
  case False
  with assms show ?thesis
    by (auto simp add: parallel_shard_memref_other input_change_fields instr_record_fields
        thread_seen_fields marker_or_exit_fields)
qed

text \<open>
  The claim as first stated: after two instructions of a quantum of 5 the segment count is
  2, and a core-wait marker, as well as a marker that arrives with another input, puts it
  back to 0.
\<close>

theorem non_instruction_record_keeps_flags_counterexample:
  "cur_segment_instrs (snd (process_records 0 (schedule_stats_tool_create 5 0) (new_per_shard 0)
       [(stream_on 0, instr_memref 5), (stream_on 0, instr_memref 5)])) = 2
   \<and> cur_segment_instrs (snd (process_records 0 (schedule_stats_tool_create 5 0) (new_per_shard 0)
       [(stream_on 0, instr_memref 5), (stream_on 0, instr_memref 5),
        (stream_on 0, marker_memref 5 TRACE_MARKER_TYPE_CORE_WAIT 0)])) = 0
   \<and> cur_segment_instrs (snd (process_records 0 (schedule_stats_tool_create 5 0) (new_per_shard 0)
       [(stream_on 0, instr_memref 5), (stream_on 0, instr_memref 5),
        (stream_on 1, marker_memref 8 TRACE_MARKER_TYPE_OTHER 0)])) = 0
   \<and> \<not> type_is_instr (type (marker_memref 5 TRACE_MARKER_TYPE_CORE_WAIT 0))
   \<and> \<not> type_is_instr (type (marker_memref 8 TRACE_MARKER_TYPE_OTHER 0))"
  by (simp add: run_defs)

theorem non_instruction_record_keeps_flags_witness:
  "saw_maybe_blocking (snd (parallel_shard_memref 0 (schedule_stats_tool_create 5 0) (stream_on 0)
       ((new_per_shard 0)\<lparr>thread_sequence := ''A'', prev_input := 0, saw_maybe_blocking := True,
          cur_segment_instrs := 2\<rparr>)
       (marker_memref 5 TRACE_MARKER_TYPE_SYSCALL 0)))
   \<and> cur_segment_instrs (snd (parallel_shard_memref 0 (schedule_stats_tool_create 5 0) (stream_on 0)
       ((new_per_shard 0)\<lparr>thread_sequence := ''A'', prev_input := 0, saw_maybe_blocking := True,
          cur_segment_instrs := 2\<rparr>)
       (marker_memref 5 TRACE_MARKER_TYPE_SYSCALL 0))) = 2"
  using non_instruction_record_keeps_flags [of "marker_memref 5 TRACE_MARKER_TYPE_SYSCALL 0" 0
      "schedule_stats_tool_create 5 0" "stream_on 0"
      "(new_per_shard 0)\<lparr>thread_sequence := ''A'', prev_input := 0, saw_maybe_blocking := True,
          cur_segment_instrs := 2\<rparr>"]
  by (simp add: is_core_wait_def marker_memref_def stream_on_def new_per_shard_def
      new_counters_def type_is_instr_def)

subsection \<open>Runs of instructions\<close>

lemma word_succ_below:
  fixes c p :: "64 word"
  assumes "c < p"
  shows "unat (c + 1) = Suc (unat c)"
proof -
  have "c \<noteq> - 1" using assms by auto
  then have "1 + c \<noteq> 0" by (simp add: add_eq_0_iff)
  then have "unat (1 + c) = Suc (unat c)" by (rule unatSuc)
  then show ?thesis by (simp add: add.commute)
qed

lemma instr_same_input_step:
  assumes "type_is_instr (type memref)" and "get_input_id stream = prev_input shard"
  shows "instrs (counters (snd (parallel_shard_memref ivt tool stream shard memref)))
           = instrs (counters shard) + 1"
    and "\<not> saw_maybe_blocking (snd (parallel_shard_memref ivt tool stream shard memref))"
    and "\<not> saw_exit (snd (parallel_shard_memref ivt tool stream shard memref))"
    and "direct_switch_target (snd (parallel_shard_memref ivt tool stream shard memref)) = ivt"
    and "prev_input (snd (parallel_shard_memref ivt tool stream shard memref)) = prev_input shard"
    and "cur_segment_instrs (snd (parallel_shard_memref ivt tool stream shard memref))
           = (if cur_segment_instrs shard + 1 = knob_print_every tool then 0
              else cur_segment_instrs shard + 1)"
    and "thread_sequence (snd (parallel_shard_memref ivt tool stream shard memref))
           = thread_sequence shard @
               (if cur_segment_instrs shard + 1 = knob_print_every tool
                then [thread_letter (prev_input shard)] else [])"
proof -
  from assms(1) have ty: "type memref = TRACE_TYPE_INSTR" by (simp add: type_is_instr_def)
  then have kinds: "\<not> is_core_wait memref" "\<not> is_maybe_blocking memref"
    "\<not> is_thread_exit memref" "\<not> is_direct_switch memref"
    by (simp_all add: is_core_wait_def is_maybe_blocking_def is_thread_exit_def
        is_direct_switch_def)
  note step = parallel_shard_memref_other [OF kinds(1)] input_change_fields
    input_change_counters instr_record_fields instr_record_counters thread_seen_fields
    marker_or_exit_fields
  show "instrs (counters (snd (parallel_shard_memref ivt tool stream shard memref)))
           = instrs (counters shard) + 1"
    using assms kinds by (simp add: step)
  show "\<not> saw_maybe_blocking (snd (parallel_shard_memref ivt tool stream shard memref))"
    using assms kinds by (simp add: step)
  show "\<not> saw_exit (snd (parallel_shard_memref ivt tool stream shard memref))"
    using assms kinds by (simp add: step)
  show "direct_switch_target (snd (parallel_shard_memref ivt tool stream shard memref)) = ivt"
    using assms kinds by (simp add: step)
  show "prev_input (snd (parallel_shard_memref ivt tool stream shard memref)) = prev_input shard"
    using assms kinds by (simp add: step)
  show "cur_segment_instrs (snd (parallel_shard_memref ivt tool stream shard memref))
           = (if cur_segment_instrs shard + 1 = knob_print_every tool then 0
              else cur_segment_instrs shard + 1)"
    using assms kinds by (simp add: step)
  show "thread_sequence (snd (parallel_shard_memref ivt tool stream shard memref))
           = thread_sequence shard @
               (if cur_segment_instrs shard + 1 = knob_print_every tool
                then [thread_letter (prev_input shard)] else [])"
    using assms kinds by (simp add: step)
qed

lemma process_records_Cons:
  "process_records ivt tool shard ((stream, memref) # rest) =
     process_records ivt tool (snd (parallel_shard_memref ivt tool stream shard memref)) rest"
  using parallel_shard_memref_ok [of ivt tool stream shard memref]
  by (cases "parallel_shard_memref ivt tool stream shard memref") simp

lemma quantum_step_unat:
  fixes c p :: "64 word"
  assumes "c < p"
  shows "unat (if c + 1 = p then 0 else c + 1) = Suc (unat c) mod unat p"
    and "(if c + 1 = p then 0 else c + 1) < p"
    and "(if c + 1 = p then 1 else 0) = Suc (unat c) div unat p"
proof -
  have s: "unat (c + 1) = Suc (unat c)" using assms by (rule word_succ_below)
  have lt: "unat c < unat p" using assms by (simp add: word_less_nat_alt)
  have eq: "(c + 1 = p) = (Suc (unat c) = unat p)"
    using s by (simp add: word_unat_eq_iff)
  show "unat (if c + 1 = p then 0 else c + 1) = Suc (unat c) mod unat p"
    using s lt eq by simp
  show "(if c + 1 = p then 0 else c + 1) < p"
    using s lt eq by (simp add: word_less_nat_alt)
  show "(if c + 1 = p then 1 else 0) = Suc (unat c) div unat p"
    using s lt eq by simp
qed

lemma instrs_run_count:
  "instrs_of_input (prev_input shard) rs \<Longrightarrow>
   instrs (counters (snd (process_records ivt tool shard rs)))
     = instrs (counters shard) + int (length rs)
   \<and> prev_input (snd (process_records ivt tool shard rs)) = prev_input shard"
proof (induction rs arbitrary: shard)
  case Nil
  show ?case by simp
next
  case (Cons r rs)
  obtain stream memref where r: "r = (stream, memref)" by (cases r)
  let ?s1 = "snd (parallel_shard_memref ivt tool stream shard memref)"
  from Cons.prems r have i: "type_is_instr (type memref)" "get_input_id stream = prev_input shard"
    and rest: "instrs_of_input (prev_input shard) rs"
    by (simp_all add: instrs_of_input_def)
  have p1: "prev_input ?s1 = prev_input shard" using i by (rule instr_same_input_step)
  have c1: "instrs (counters ?s1) = instrs (counters shard) + 1"
    using i by (rule instr_same_input_step)
  from rest p1 have "instrs_of_input (prev_input ?s1) rs" by simp
  from Cons.IH [OF this] p1 c1 show ?case
    by (simp add: r process_records_Cons del: process_records.simps(2))
qed

lemma instrs_run_flags:
  "instrs_of_input (prev_input shard) rs \<Longrightarrow> rs \<noteq> [] \<Longrightarrow>
   \<not> saw_maybe_blocking (snd (process_records ivt tool shard rs))
   \<and> \<not> saw_exit (snd (process_records ivt tool shard rs))
   \<and> direct_switch_target (snd (process_records ivt tool shard rs)) = ivt"
proof (induction rs arbitrary: shard)
  case Nil
  then show ?case by simp
next
  case (Cons r rs)
  obtain stream memref where r: "r = (stream, memref)" by (cases r)
  let ?s1 = "snd (parallel_shard_memref ivt tool stream shard memref)"
  from Cons.prems r have i: "type_is_instr (type memref)" "get_input_id stream = prev_input shard"
    and rest: "instrs_of_input (prev_input shard) rs"
    by (simp_all add: instrs_of_input_def)
  have p1: "prev_input ?s1 = prev_input shard" using i by (rule instr_same_input_step)
  show ?case
  proof (cases "rs = []")
    case True
    then show ?thesis
      using instr_same_input_step(2,3,4) [OF i, of ivt tool]
      by (simp add: r process_records_Cons del: process_records.simps(2))
  next
    case False
    from rest p1 have "instrs_of_input (prev_input ?s1) rs" by simp
    from Cons.IH [OF this False] show ?thesis
      by (simp add: r process_records_Cons del: process_records.simps(2))
  qed
qed

lemma div_mod_carry:
  fixes a n p :: nat
  shows "a div p + (a mod p + n) div p = (a + n) div p"
    and "(a mod p + n) mod p = (a + n) mod p"
proof -
  show "a div p + (a mod p + n) div p = (a + n) div p"
  proof (cases "p = 0")
    case True
    then show ?thesis by simp
  next
    case False
    have "(a mod p + n + a div p * p) div p = a div p + (a mod p + n) div p"
      using False by (rule div_mult_self1)
    moreover have "a mod p + n + a div p * p = a + n"
      using div_mult_mod_eq [of a p] by linarith
    ultimately show ?thesis by simp
  qed
  show "(a mod p + n) mod p = (a + n) mod p"
    by (simp add: mod_add_left_eq)
qed

lemma instrs_run_quantum:
  "instrs_of_input (prev_input shard) rs \<Longrightarrow>
   cur_segment_instrs shard < knob_print_every tool \<Longrightarrow>
   unat (cur_segment_instrs (snd (process_records ivt tool shard rs)))
     = (unat (cur_segment_instrs shard) + length rs) mod unat (knob_print_every tool)
   \<and> thread_sequence (snd (process_records ivt tool shard rs))
     = thread_sequence shard @
         replicate ((unat (cur_segment_instrs shard) + length rs) div unat (knob_print_every tool))
           (thread_letter (prev_input shard))"
proof (induction rs arbitrary: shard)
  case Nil
  then show ?case by (simp add: word_less_nat_alt)
next
  case (Cons r rs)
  obtain stream memref where r: "r = (stream, memref)" by (cases r)
  let ?s1 = "snd (parallel_shard_memref ivt tool stream shard memref)"
  let ?c = "cur_segment_instrs shard"
  let ?p = "knob_print_every tool"
  from Cons.prems r have i: "type_is_instr (type memref)" "get_input_id stream = prev_input shard"
    and rest: "instrs_of_input (prev_input shard) rs"
    by (simp_all add: instrs_of_input_def)
  have lt: "?c < ?p" by (rule Cons.prems(2))
  have p1: "prev_input ?s1 = prev_input shard" using i by (rule instr_same_input_step)
  have c1: "cur_segment_instrs ?s1 = (if ?c + 1 = ?p then 0 else ?c + 1)"
    using i by (rule instr_same_input_step)
  have t1: "thread_sequence ?s1 = thread_sequence shard @
      (if ?c + 1 = ?p then [thread_letter (prev_input shard)] else [])"
    using i by (rule instr_same_input_step)
  have u1: "unat (cur_segment_instrs ?s1) = Suc (unat ?c) mod unat ?p"
    unfolding c1 using lt by (rule quantum_step_unat)
  have l1: "cur_segment_instrs ?s1 < ?p"
    unfolding c1 using lt by (rule quantum_step_unat)
  have d1: "(if ?c + 1 = ?p then 1 else 0) = Suc (unat ?c) div unat ?p"
    using lt by (rule quantum_step_unat)
  have t1': "thread_sequence ?s1 = thread_sequence shard @
      replicate (Suc (unat ?c) div unat ?p) (thread_letter (prev_input shard))"
    unfolding t1 d1 [symmetric] by simp
  from rest p1 have "instrs_of_input (prev_input ?s1) rs" by simp
  from Cons.IH [OF this l1]
  have ih: "unat (cur_segment_instrs (snd (process_records ivt tool ?s1 rs)))
      = (Suc (unat ?c) mod unat ?p + length rs) mod unat ?p"
    "thread_sequence (snd (process_records ivt tool ?s1 rs))
      = thread_sequence shard @
          replicate (Suc (unat ?c) div unat ?p + (Suc (unat ?c) mod unat ?p + length rs) div unat ?p)
            (thread_letter (prev_input shard))"
    by (simp_all add: u1 t1' p1 replicate_add)
  show ?case
    using ih by (simp add: r process_records_Cons div_mod_carry del: process_records.simps(2))
qed

lemma segment_start_below_quantum:
  assumes "type_is_instr (type memref)" and "get_input_id stream \<noteq> prev_input shard"
    and "0 < knob_print_every tool"
  shows "cur_segment_instrs (snd (parallel_shard_memref ivt tool stream shard memref))
           < knob_print_every tool
         \<and> prev_input (snd (parallel_shard_memref ivt tool stream shard memref))
           = get_input_id stream"
proof -
  from assms(1) have "type memref = TRACE_TYPE_INSTR" by (simp add: type_is_instr_def)
  then have nw: "\<not> is_core_wait memref" by (simp add: is_core_wait_def)
  have one: "1 < knob_print_every tool" if "knob_print_every tool \<noteq> 1"
  proof -
    have "unat (knob_print_every tool) \<noteq> 0"
      using assms(3) by (simp add: word_less_nat_alt)
    moreover have "unat (knob_print_every tool) \<noteq> 1"
      using that word_unat_eq_iff [of "knob_print_every tool" 1] by simp
    ultimately have "1 < unat (knob_print_every tool)" by linarith
    then show ?thesis by (simp add: word_less_nat_alt)
  qed
  show ?thesis
    using assms one
    by (simp add: parallel_shard_memref_other [OF nw] input_change_fields instr_record_fields
        thread_seen_fields marker_or_exit_fields)
qed

text \<open>
  Instruction records of the one input that the shard is on. Each record adds one to the
  instruction counter and to \<open>cur_segment_instrs\<close>, which goes back to 0 when it reaches
  the quantum, and at that moment exactly one letter of the input is appended; each record
  clears \<open>saw_maybe_blocking\<close>, \<open>saw_exit\<close> and \<open>direct_switch_target\<close>. Over a
  sequence of such records, started with the segment count below the quantum, the count is
  the number of instructions modulo the quantum and the timeline gains one letter per full
  quantum. The segment count is below the quantum after the instruction that a segment
  starts with, whenever the quantum is positive.
\<close>

theorem instruction_quantum:
  assumes "instrs_of_input input rs" and "prev_input shard = input"
    and "type_is_instr (type memref)" and "get_input_id stream = input"
  shows
    "instrs (counters (snd (parallel_shard_memref ivt tool stream shard memref)))
       = instrs (counters shard) + 1
     \<and> cur_segment_instrs (snd (parallel_shard_memref ivt tool stream shard memref))
       = (if cur_segment_instrs shard + 1 = knob_print_every tool then 0
          else cur_segment_instrs shard + 1)
     \<and> thread_sequence (snd (parallel_shard_memref ivt tool stream shard memref))
       = thread_sequence shard @
           (if cur_segment_instrs shard + 1 = knob_print_every tool
            then [thread_letter input] else [])
     \<and> \<not> saw_maybe_blocking (snd (parallel_shard_memref ivt tool stream shard memref))
     \<and> \<not> saw_exit (snd (parallel_shard_memref ivt tool stream shard memref))
     \<and> direct_switch_target (snd (parallel_shard_memref ivt tool stream shard memref)) = ivt
     \<and> instrs (counters (snd (process_records ivt tool shard rs)))
       = instrs (counters shard) + int (length rs)
     \<and> (cur_segment_instrs shard < knob_print_every tool \<longrightarrow>
          unat (cur_segment_instrs (snd (process_records ivt tool shard rs)))
            = (unat (cur_segment_instrs shard) + length rs) mod unat (knob_print_every tool)
          \<and> thread_sequence (snd (process_records ivt tool shard rs))
            = thread_sequence shard @
                replicate
                  ((unat (cur_segment_instrs shard) + length rs) div unat (knob_print_every tool))
                  (thread_letter input))
     \<and> (rs \<noteq> [] \<longrightarrow>
          \<not> saw_maybe_blocking (snd (process_records ivt tool shard rs))
          \<and> \<not> saw_exit (snd (process_records ivt tool shard rs))
          \<and> direct_switch_target (snd (process_records ivt tool shard rs)) = ivt)
     \<and> (0 < knob_print_every tool \<and> get_input_id stream \<noteq> prev_input shard0 \<longrightarrow>
          cur_segment_instrs (snd (parallel_shard_memref ivt tool stream shard0 memref))
            < knob_print_every tool
          \<and> prev_input (snd (parallel_shard_memref ivt tool stream shard0 memref)) = input)"
proof -
  have run: "instrs_of_input (prev_input shard) rs" using assms(1,2) by simp
  have same: "get_input_id stream = prev_input shard" using assms(2,4) by simp
  note one = instr_same_input_step [OF assms(3) same, of ivt tool]
  show ?thesis
    using one instrs_run_count [OF run, of ivt tool] instrs_run_flags [OF run, of ivt tool]
      instrs_run_quantum [OF run, of tool ivt]
      segment_start_below_quantum [OF assms(3), of stream shard0 tool ivt] assms(2,4)
    by simp
qed

theorem instruction_quantum_witness:
  "instrs (counters (snd (process_records 0 (schedule_stats_tool_create 3 0)
       ((new_per_shard 0)\<lparr>thread_sequence := ''A'', prev_input := 0, cur_segment_instrs := 1\<rparr>)
       [(stream_on 0, instr_memref 5), (stream_on 0, instr_memref 5),
        (stream_on 0, instr_memref 5), (stream_on 0, instr_memref 5),
        (stream_on 0, instr_memref 5)]))) = 5
   \<and> unat (cur_segment_instrs (snd (process_records 0 (schedule_stats_tool_create 3 0)
       ((new_per_shard 0)\<lparr>thread_sequence := ''A'', prev_input := 0, cur_segment_instrs := 1\<rparr>)
       [(stream_on 0, instr_memref 5), (stream_on 0, instr_memref 5),
        (stream_on 0, instr_memref 5), (stream_on 0, instr_memref 5),
        (stream_on 0, instr_memref 5)]))) = 0
   \<and> thread_sequence (snd (process_records 0 (schedule_stats_tool_create 3 0)
       ((new_per_shard 0)\<lparr>thread_sequence := ''A'', prev_input := 0, cur_segment_instrs := 1\<rparr>)
       [(stream_on 0, instr_memref 5), (stream_on 0, instr_memref 5),
        (stream_on 0, instr_memref 5), (stream_on 0, instr_memref 5),
        (stream_on 0, instr_memref 5)])) = ''AAA''"
proof -
  have rs: "instrs_of_input 0
     [(stream_on 0, instr_memref 5), (stream_on 0, instr_memref 5),
      (stream_on 0, instr_memref 5), (stream_on 0, instr_memref 5),
      (stream_on 0, instr_memref 5)]"
    by (simp add: instrs_of_input_def stream_on_def instr_memref_def type_is_instr_def)
  have p: "prev_input ((new_per_shard 0)\<lparr>thread_sequence := ''A'', prev_input := 0,
      cur_segment_instrs := 1\<rparr>) = 0"
    by simp
  have i: "type_is_instr (type (instr_memref 5))"
    by (simp add: instr_memref_def type_is_instr_def)
  have g: "get_input_id (stream_on 0) = 0" by (simp add: stream_on_def)
  have n: "(6::nat) div 3 = 2" "replicate 2 (CHR ''A'') = ''AA''"
    by (simp_all add: numeral_2_eq_2)
  show ?thesis
    using instruction_quantum [OF rs p i g, of 0 "schedule_stats_tool_create 3 0"] n
    by (simp add: schedule_stats_tool_create_def new_per_shard_def new_counters_def
        thread_letter_values)
qed

subsection \<open>Evidence for the next switch\<close>

lemma since_last_instr_snoc:
  "since_last_instr (ms @ [m]) =
     (if type_is_instr (type m) then [] else since_last_instr ms @ [m])"
  by (simp add: since_last_instr_def)

lemma last_direct_target_snoc:
  "last_direct_target ivt (ms @ [m]) =
     (if is_direct_switch m then sint (marker_value m) else last_direct_target ivt ms)"
  by (simp add: last_direct_target_def)

lemma step_flags:
  "saw_maybe_blocking (snd (parallel_shard_memref ivt tool stream shard memref))
     = (\<not> type_is_instr (type memref) \<and> (saw_maybe_blocking shard \<or> is_maybe_blocking memref))"
  "saw_exit (snd (parallel_shard_memref ivt tool stream shard memref))
     = (\<not> type_is_instr (type memref) \<and> (saw_exit shard \<or> is_thread_exit memref))"
  "direct_switch_target (snd (parallel_shard_memref ivt tool stream shard memref))
     = (if type_is_instr (type memref) then ivt
        else if is_direct_switch memref then sint (marker_value memref)
        else direct_switch_target shard)"
proof -
  have kinds: "type_is_instr (type memref) \<Longrightarrow>
      \<not> is_core_wait memref \<and> \<not> is_maybe_blocking memref \<and> \<not> is_thread_exit memref
      \<and> \<not> is_direct_switch memref"
    "is_core_wait memref \<Longrightarrow>
      \<not> type_is_instr (type memref) \<and> \<not> is_maybe_blocking memref \<and> \<not> is_thread_exit memref
      \<and> \<not> is_direct_switch memref"
    by (simp_all add: type_is_instr_def is_core_wait_def is_maybe_blocking_def
        is_thread_exit_def is_direct_switch_def)
  note other = parallel_shard_memref_other input_change_fields instr_record_fields
    thread_seen_fields marker_or_exit_fields
  show "saw_maybe_blocking (snd (parallel_shard_memref ivt tool stream shard memref))
     = (\<not> type_is_instr (type memref) \<and> (saw_maybe_blocking shard \<or> is_maybe_blocking memref))"
    using kinds
    by (cases "is_core_wait memref") (auto simp add: parallel_shard_memref_wait core_wait_fields other)
  show "saw_exit (snd (parallel_shard_memref ivt tool stream shard memref))
     = (\<not> type_is_instr (type memref) \<and> (saw_exit shard \<or> is_thread_exit memref))"
    using kinds
    by (cases "is_core_wait memref") (auto simp add: parallel_shard_memref_wait core_wait_fields other)
  show "direct_switch_target (snd (parallel_shard_memref ivt tool stream shard memref))
     = (if type_is_instr (type memref) then ivt
        else if is_direct_switch memref then sint (marker_value memref)
        else direct_switch_target shard)"
    using kinds
    by (cases "is_core_wait memref") (auto simp add: parallel_shard_memref_wait core_wait_fields other)
qed

lemma process_records_append:
  "snd (process_records ivt tool shard (rs @ rs')) =
     snd (process_records ivt tool (snd (process_records ivt tool shard rs)) rs')"
proof (induction rs arbitrary: shard)
  case Nil
  show ?case by simp
next
  case (Cons r rs)
  obtain stream memref where r: "r = (stream, memref)" by (cases r)
  show ?case
    using Cons.IH [of "snd (parallel_shard_memref ivt tool stream shard memref)"]
    by (simp add: r process_records_Cons del: process_records.simps(2))
qed

lemma process_records_snoc:
  "snd (process_records ivt tool shard (rs @ [(stream, memref)])) =
     snd (parallel_shard_memref ivt tool stream (snd (process_records ivt tool shard rs)) memref)"
  by (simp add: process_records_append process_records_Cons del: process_records.simps(2))

lemma flags_follow_records:
  assumes "\<not> saw_maybe_blocking shard" and "\<not> saw_exit shard"
    and "direct_switch_target shard = ivt"
  shows "saw_maybe_blocking (snd (process_records ivt tool shard rs))
           = list_ex is_maybe_blocking (since_last_instr (map snd rs))
         \<and> saw_exit (snd (process_records ivt tool shard rs))
           = list_ex is_thread_exit (since_last_instr (map snd rs))
         \<and> direct_switch_target (snd (process_records ivt tool shard rs))
           = last_direct_target ivt (since_last_instr (map snd rs))"
proof (induction rs rule: rev_induct)
  case Nil
  show ?case using assms by (simp add: since_last_instr_def last_direct_target_def)
next
  case (snoc r rs)
  obtain stream memref where r: "r = (stream, memref)" by (cases r)
  have empty: "last_direct_target ivt [] = ivt" by (simp add: last_direct_target_def)
  show ?case
    using snoc.IH
    by (simp add: r process_records_snoc step_flags since_last_instr_snoc
        last_direct_target_snoc empty)
qed

text \<open>
  Claim C3, as amended. The shard has processed some records since a moment at which its
  three flags were clear (as they are in a new shard and after every instruction), and
  the next record is a detected switch. Then \<open>voluntary_switches\<close> is incremented if and
  only if a maybe-blocking marker or a thread exit is among the records processed since the
  shard's last instruction record, whichever input they came from, and \<open>direct_switches\<close>
  if and only if the thread id of the switching record equals the value of the last
  direct-switch marker among those records, or \<^verbatim>\<open>INVALID_THREAD_ID\<close> when there is
  none. An instruction record leaves the three flags clear.
\<close>

theorem switch_classification:
  assumes "\<not> saw_maybe_blocking shard0" and "\<not> saw_exit shard0"
    and "direct_switch_target shard0 = ivt"
    and "shard = snd (process_records ivt tool shard0 rs)"
    and "\<not> is_core_wait memref"
    and "get_input_id stream \<noteq> prev_input shard"
    and "thread_sequence shard \<noteq> []"
  shows
    "total_switches (counters (snd (parallel_shard_memref ivt tool stream shard memref)))
       = total_switches (counters shard) + 1
     \<and> voluntary_switches (counters (snd (parallel_shard_memref ivt tool stream shard memref)))
       = voluntary_switches (counters shard)
         + (if list_ex is_maybe_blocking (since_last_instr (map snd rs))
               \<or> list_ex is_thread_exit (since_last_instr (map snd rs))
            then 1 else 0)
     \<and> direct_switches (counters (snd (parallel_shard_memref ivt tool stream shard memref)))
       = direct_switches (counters shard)
         + (if last_direct_target ivt (since_last_instr (map snd rs)) = tid memref
            then 1 else 0)
     \<and> (type_is_instr (type memref) \<longrightarrow>
          \<not> saw_maybe_blocking (snd (parallel_shard_memref ivt tool stream shard memref))
          \<and> \<not> saw_exit (snd (parallel_shard_memref ivt tool stream shard memref))
          \<and> direct_switch_target (snd (parallel_shard_memref ivt tool stream shard memref))
            = ivt)"
proof -
  note flags = flags_follow_records [OF assms(1,2,3), of tool rs, folded assms(4)]
  have sw: "total_switches (counters (snd (parallel_shard_memref ivt tool stream shard memref)))
       = total_switches (counters shard) + 1"
    using assms(5,6,7)
    by (simp add: parallel_shard_memref_other input_change_counters instr_record_counters
        thread_seen_fields marker_or_exit_fields)
  have vol: "voluntary_switches (counters (snd (parallel_shard_memref ivt tool stream shard memref)))
       = voluntary_switches (counters shard)
         + (if saw_maybe_blocking shard \<or> saw_exit shard then 1 else 0)"
    using assms(5,6,7)
    by (simp add: parallel_shard_memref_other input_change_counters instr_record_counters
        thread_seen_fields marker_or_exit_fields)
  have dir: "direct_switches (counters (snd (parallel_shard_memref ivt tool stream shard memref)))
       = direct_switches (counters shard)
         + (if direct_switch_target shard = tid memref then 1 else 0)"
    using assms(5,6,7)
    by (simp add: parallel_shard_memref_other input_change_counters instr_record_counters
        thread_seen_fields marker_or_exit_fields)
  show ?thesis
    using sw vol dir flags by (simp add: step_flags)
qed

text \<open>
  The claim as first stated. After an instruction, two direct-switch markers that name
  thread 7 and then thread 8 are followed by a switch to thread 7: a marker naming the
  incoming thread occurred since the boundary, and the switch is not counted direct. And
  a maybe-blocking marker of input 0 makes two switches voluntary, the one to input 1 and
  the one from input 1 to input 2, although input 1 ran no instruction and made no
  maybe-blocking call.
\<close>

theorem switch_classification_counterexample:
  "direct_switches (counters (snd (process_records 0 (schedule_stats_tool_create 10 0)
       (new_per_shard 0)
       [(stream_on 0, instr_memref 5),
        (stream_on 0, marker_memref 5 TRACE_MARKER_TYPE_DIRECT_THREAD_SWITCH 7),
        (stream_on 0, marker_memref 5 TRACE_MARKER_TYPE_DIRECT_THREAD_SWITCH 8),
        (stream_on 1, instr_memref 7)]))) = 0
   \<and> total_switches (counters (snd (process_records 0 (schedule_stats_tool_create 10 0)
       (new_per_shard 0)
       [(stream_on 0, instr_memref 5),
        (stream_on 0, marker_memref 5 TRACE_MARKER_TYPE_DIRECT_THREAD_SWITCH 7),
        (stream_on 0, marker_memref 5 TRACE_MARKER_TYPE_DIRECT_THREAD_SWITCH 8),
        (stream_on 1, instr_memref 7)]))) = 1
   \<and> voluntary_switches (counters (snd (process_records 0 (schedule_stats_tool_create 10 0)
       (new_per_shard 0)
       [(stream_on 0, instr_memref 5),
        (stream_on 0, marker_memref 5 TRACE_MARKER_TYPE_MAYBE_BLOCKING_SYSCALL 0),
        (stream_on 1, marker_memref 6 TRACE_MARKER_TYPE_OTHER 0)]))) = 1
   \<and> voluntary_switches (counters (snd (process_records 0 (schedule_stats_tool_create 10 0)
       (new_per_shard 0)
       [(stream_on 0, instr_memref 5),
        (stream_on 0, marker_memref 5 TRACE_MARKER_TYPE_MAYBE_BLOCKING_SYSCALL 0),
        (stream_on 1, marker_memref 6 TRACE_MARKER_TYPE_OTHER 0),
        (stream_on 2, marker_memref 7 TRACE_MARKER_TYPE_OTHER 0)]))) = 2"
  by (simp add: run_defs)

theorem switch_classification_witness:
  "voluntary_switches (counters (snd (parallel_shard_memref 0 (schedule_stats_tool_create 10 0)
       (stream_on 1)
       (snd (process_records 0 (schedule_stats_tool_create 10 0) (new_per_shard 0)
          [(stream_on 0, instr_memref 5),
           (stream_on 0, marker_memref 5 TRACE_MARKER_TYPE_MAYBE_BLOCKING_SYSCALL 0),
           (stream_on 0, marker_memref 5 TRACE_MARKER_TYPE_DIRECT_THREAD_SWITCH 7)]))
       (instr_memref 7)))) = 1
   \<and> direct_switches (counters (snd (parallel_shard_memref 0 (schedule_stats_tool_create 10 0)
       (stream_on 1)
       (snd (process_records 0 (schedule_stats_tool_create 10 0) (new_per_shard 0)
          [(stream_on 0, instr_memref 5),
           (stream_on 0, marker_memref 5 TRACE_MARKER_TYPE_MAYBE_BLOCKING_SYSCALL 0),
           (stream_on 0, marker_memref 5 TRACE_MARKER_TYPE_DIRECT_THREAD_SWITCH 7)]))
       (instr_memref 7)))) = 1"
proof -
  let ?rs = "[(stream_on 0, instr_memref 5),
     (stream_on 0, marker_memref 5 TRACE_MARKER_TYPE_MAYBE_BLOCKING_SYSCALL 0),
     (stream_on 0, marker_memref 5 TRACE_MARKER_TYPE_DIRECT_THREAD_SWITCH 7)]"
  let ?tool = "schedule_stats_tool_create 10 0"
  let ?shard = "snd (process_records 0 ?tool (new_per_shard 0) ?rs)"
  have a: "\<not> saw_maybe_blocking (new_per_shard 0)" "\<not> saw_exit (new_per_shard 0)"
    "direct_switch_target (new_per_shard 0) = 0"
    by (simp_all add: new_per_shard_def)
  have b: "\<not> is_core_wait (instr_memref 7)"
    by (simp add: is_core_wait_def instr_memref_def)
  have c: "get_input_id (stream_on 1) \<noteq> prev_input ?shard"
    by (simp add: run_defs)
  have d: "thread_sequence ?shard \<noteq> []"
    by (simp add: run_defs)
  have e: "voluntary_switches (counters ?shard) = 0" "direct_switches (counters ?shard) = 0"
    by (simp_all add: run_defs)
  have f: "list_ex is_maybe_blocking (since_last_instr (map snd ?rs))"
    "last_direct_target 0 (since_last_instr (map snd ?rs)) = tid (instr_memref 7)"
    by (simp_all add: since_last_instr_def last_direct_target_def is_maybe_blocking_def
        is_direct_switch_def instr_memref_def marker_memref_def type_is_instr_def)
  show ?thesis
    using switch_classification [OF a refl b c d] e f by simp
qed

subsection \<open>Runs of core waits\<close>

lemma word_succ_no_wrap:
  fixes c :: "64 word"
  assumes "unat c + 1 < 2 ^ 64"
  shows "unat (c + 1) = unat c + 1"
proof -
  have "unat c + unat (1 :: 64 word) < 2 ^ LENGTH(64)" using assms by simp
  then have "unat (c + 1) = unat c + unat (1 :: 64 word)" by (simp only: unat_add_lem)
  then show ?thesis by simp
qed

text \<open>
  Once the count of a run has reached the quantum, no further wait of the run appends a
  character, as long as the 64-bit count does not wrap.
\<close>

lemma core_wait_run_past_quantum:
  "core_waits rs \<Longrightarrow> prev_was_wait shard \<Longrightarrow>
   unat (knob_print_every tool) \<le> unat (cur_segment_instrs shard) \<Longrightarrow>
   unat (cur_segment_instrs shard) + length rs < 2 ^ 64 \<Longrightarrow>
   thread_sequence (snd (process_records ivt tool shard rs)) = thread_sequence shard
   \<and> unat (cur_segment_instrs (snd (process_records ivt tool shard rs)))
     = unat (cur_segment_instrs shard) + length rs
   \<and> waits (counters (snd (process_records ivt tool shard rs)))
     = waits (counters shard) + int (length rs)"
proof (induction rs arbitrary: shard)
  case Nil
  show ?case by simp
next
  case (Cons r rs)
  obtain stream memref where r: "r = (stream, memref)" by (cases r)
  let ?s1 = "snd (parallel_shard_memref ivt tool stream shard memref)"
  from Cons.prems(1) r have w: "is_core_wait memref" and rest: "core_waits rs"
    by (simp_all add: core_waits_def)
  have s1: "?s1 = core_wait tool shard"
    using w by (simp add: parallel_shard_memref_wait)
  have nowrap: "unat (cur_segment_instrs shard) + 1 < 2 ^ 64"
    using Cons.prems(4) by simp
  have u: "unat (cur_segment_instrs shard + 1) = unat (cur_segment_instrs shard) + 1"
    using nowrap by (rule word_succ_no_wrap)
  have ne: "cur_segment_instrs shard + 1 \<noteq> knob_print_every tool"
  proof
    assume "cur_segment_instrs shard + 1 = knob_print_every tool"
    then have "unat (cur_segment_instrs shard + 1) = unat (knob_print_every tool)" by simp
    with u Cons.prems(3) show False by simp
  qed
  have c1: "cur_segment_instrs ?s1 = cur_segment_instrs shard + 1"
    and t1: "thread_sequence ?s1 = thread_sequence shard"
    and p1: "prev_was_wait ?s1"
    and w1: "waits (counters ?s1) = waits (counters shard) + 1"
    using Cons.prems(2) ne by (simp_all add: s1 core_wait_fields)
  have q1: "unat (knob_print_every tool) \<le> unat (cur_segment_instrs ?s1)"
    using Cons.prems(3) by (simp add: c1 u)
  have b1: "unat (cur_segment_instrs ?s1) + length rs < 2 ^ 64"
    using Cons.prems(4) by (simp add: c1 u)
  from Cons.IH [OF rest p1 q1 b1] show ?case
    by (simp add: r process_records_Cons c1 u t1 w1 del: process_records.simps(2))
qed

text \<open>
  Claim C1. In a run of consecutive core-wait markers the first record appends one wait
  character and sets \<open>cur_segment_instrs\<close> to 0, every record adds one to the wait counter,
  and one more wait character is due for each full quantum of further wait records. The
  code appends the character when the count reaches the quantum and does not put the count
  back to 0, as the instruction branch does: with a quantum of 2, three wait records give
  two characters, and five wait records give the same two, with the count at 4, instead
  of three.
\<close>

theorem core_wait_run_marks_one_quantum:
  "thread_sequence (snd (process_records 0 (schedule_stats_tool_create 2 0) (new_per_shard 0)
       [(stream_on 0, marker_memref 0 TRACE_MARKER_TYPE_CORE_WAIT 0),
        (stream_on 0, marker_memref 0 TRACE_MARKER_TYPE_CORE_WAIT 0),
        (stream_on 0, marker_memref 0 TRACE_MARKER_TYPE_CORE_WAIT 0)])) = ''--''
   \<and> thread_sequence (snd (process_records 0 (schedule_stats_tool_create 2 0) (new_per_shard 0)
       [(stream_on 0, marker_memref 0 TRACE_MARKER_TYPE_CORE_WAIT 0),
        (stream_on 0, marker_memref 0 TRACE_MARKER_TYPE_CORE_WAIT 0),
        (stream_on 0, marker_memref 0 TRACE_MARKER_TYPE_CORE_WAIT 0),
        (stream_on 0, marker_memref 0 TRACE_MARKER_TYPE_CORE_WAIT 0),
        (stream_on 0, marker_memref 0 TRACE_MARKER_TYPE_CORE_WAIT 0)])) = ''--''
   \<and> cur_segment_instrs (snd (process_records 0 (schedule_stats_tool_create 2 0) (new_per_shard 0)
       [(stream_on 0, marker_memref 0 TRACE_MARKER_TYPE_CORE_WAIT 0),
        (stream_on 0, marker_memref 0 TRACE_MARKER_TYPE_CORE_WAIT 0),
        (stream_on 0, marker_memref 0 TRACE_MARKER_TYPE_CORE_WAIT 0),
        (stream_on 0, marker_memref 0 TRACE_MARKER_TYPE_CORE_WAIT 0),
        (stream_on 0, marker_memref 0 TRACE_MARKER_TYPE_CORE_WAIT 0)])) = 4
   \<and> waits (counters (snd (process_records 0 (schedule_stats_tool_create 2 0) (new_per_shard 0)
       [(stream_on 0, marker_memref 0 TRACE_MARKER_TYPE_CORE_WAIT 0),
        (stream_on 0, marker_memref 0 TRACE_MARKER_TYPE_CORE_WAIT 0),
        (stream_on 0, marker_memref 0 TRACE_MARKER_TYPE_CORE_WAIT 0),
        (stream_on 0, marker_memref 0 TRACE_MARKER_TYPE_CORE_WAIT 0),
        (stream_on 0, marker_memref 0 TRACE_MARKER_TYPE_CORE_WAIT 0)]))) = 5"
  by (simp add: run_defs)

subsection \<open>The report\<close>

lemma denominators_append: "denominators (xs @ ys) = denominators xs @ denominators ys"
  by (induction xs rule: denominators.induct) simp_all

text \<open>
  Claim C5. Every division of the counter report is to be guarded against a zero
  denominator. The code divides by the instruction count and by the switch count in the
  two ratio lines whatever their values, and guards the two percentage lines only: for
  counters that are all zero, and for a shard that saw nothing but a core wait, both ratio
  lines divide by zero.
\<close>

theorem print_counters_unguarded_divisions:
  "denominators (print_counters c) =
     [instrs c, total_switches c]
     @ (if total_switches c > 0 then [total_switches c, total_switches c] else [])
   \<and> denominators (print_counters new_counters) = [0, 0]
   \<and> denominators (print_counters (counters (snd (process_records 0
        (schedule_stats_tool_create 2 0) (new_per_shard 0)
        [(stream_on 0, marker_memref 0 TRACE_MARKER_TYPE_CORE_WAIT 0)])))) = [0, 0]"
  by (simp add: print_counters_def denominators_append new_counters_def run_defs)

lemma add_shards_counts:
  "instrs (add_shards t m) = instrs t + (\<Sum>s\<leftarrow>m. instrs (counters (snd s)))"
  "total_switches (add_shards t m) = total_switches t + (\<Sum>s\<leftarrow>m. total_switches (counters (snd s)))"
  "voluntary_switches (add_shards t m)
     = voluntary_switches t + (\<Sum>s\<leftarrow>m. voluntary_switches (counters (snd s)))"
  "direct_switches (add_shards t m)
     = direct_switches t + (\<Sum>s\<leftarrow>m. direct_switches (counters (snd s)))"
  "syscalls (add_shards t m) = syscalls t + (\<Sum>s\<leftarrow>m. syscalls (counters (snd s)))"
  "maybe_blocking_syscalls (add_shards t m)
     = maybe_blocking_syscalls t + (\<Sum>s\<leftarrow>m. maybe_blocking_syscalls (counters (snd s)))"
  "direct_switch_requests (add_shards t m)
     = direct_switch_requests t + (\<Sum>s\<leftarrow>m. direct_switch_requests (counters (snd s)))"
  "waits (add_shards t m) = waits t + (\<Sum>s\<leftarrow>m. waits (counters (snd s)))"
  "threads (add_shards t m) = threads t \<union> (\<Union>s\<in>set m. threads (counters (snd s)))"
  by (induction m arbitrary: t; simp add: counters_add_def; blast?)+

lemma counters_add_new: "counters_add new_counters c = c" "counters_add c new_counters = c"
  by (simp_all add: counters_add_def new_counters_def)

lemma counters_add_assoc:
  "counters_add (counters_add a b) c = counters_add a (counters_add b c)"
  by (simp add: counters_add_def Un_assoc)

lemma add_shards_from:
  "add_shards t m = counters_add t (add_shards new_counters m)"
proof (induction m arbitrary: t)
  case Nil
  show ?case by (simp add: counters_add_new)
next
  case (Cons s m)
  have "add_shards t (s # m) = counters_add (counters_add t (counters (snd s))) (add_shards new_counters m)"
    using Cons.IH [of "counters_add t (counters (snd s))"] by simp
  also have "\<dots> = counters_add t (counters_add (counters (snd s)) (add_shards new_counters m))"
    by (rule counters_add_assoc)
  also have "counters_add (counters (snd s)) (add_shards new_counters m)
      = add_shards new_counters (s # m)"
    using Cons.IH [of "counters (snd s)"] by (simp add: counters_add_new)
  finally show ?case .
qed

lemma add_shards_append:
  "add_shards t (m1 @ m2) = add_shards (add_shards t m1) m2"
  by (induction m1 arbitrary: t) simp_all

text \<open>
  Claim C7. The total counters that the report prints are the element-wise sums, over the
  shards of the map, of the shards' counters: instructions, total, voluntary and direct
  switches, system calls, maybe-blocking system calls, direct-switch requests and waits.
  Summing is a homomorphism: the totals of two maps put together are the sum of their
  totals. The report prints these totals, then each shard's own counters and each
  shard's own timeline.
\<close>

theorem totals_are_sums_over_shards:
  "instrs (add_shards new_counters (shard_map tool))
     = (\<Sum>s\<leftarrow>shard_map tool. instrs (counters (snd s)))
   \<and> total_switches (add_shards new_counters (shard_map tool))
     = (\<Sum>s\<leftarrow>shard_map tool. total_switches (counters (snd s)))
   \<and> voluntary_switches (add_shards new_counters (shard_map tool))
     = (\<Sum>s\<leftarrow>shard_map tool. voluntary_switches (counters (snd s)))
   \<and> direct_switches (add_shards new_counters (shard_map tool))
     = (\<Sum>s\<leftarrow>shard_map tool. direct_switches (counters (snd s)))
   \<and> syscalls (add_shards new_counters (shard_map tool))
     = (\<Sum>s\<leftarrow>shard_map tool. syscalls (counters (snd s)))
   \<and> maybe_blocking_syscalls (add_shards new_counters (shard_map tool))
     = (\<Sum>s\<leftarrow>shard_map tool. maybe_blocking_syscalls (counters (snd s)))
   \<and> direct_switch_requests (add_shards new_counters (shard_map tool))
     = (\<Sum>s\<leftarrow>shard_map tool. direct_switch_requests (counters (snd s)))
   \<and> waits (add_shards new_counters (shard_map tool))
     = (\<Sum>s\<leftarrow>shard_map tool. waits (counters (snd s)))
   \<and> add_shards new_counters (m1 @ m2)
     = counters_add (add_shards new_counters m1) (add_shards new_counters m2)
   \<and> print_results tool =
       (True,
        [Text_line (TOOL_NAME @ '' results:''), Text_line ''Total counts:'',
         Count_line (int (length (shard_map tool))) '' cores'']
        @ print_counters (add_shards new_counters (shard_map tool))
        @ concat (map (\<lambda>shard. Core_counts_line (core (snd shard))
                                  # print_counters (counters (snd shard)))
                   (shard_map tool))
        @ map (\<lambda>shard. Core_schedule_line (core (snd shard)) (thread_sequence (snd shard)))
            (shard_map tool))"
proof -
  have hom: "add_shards new_counters (m1 @ m2)
      = counters_add (add_shards new_counters m1) (add_shards new_counters m2)"
    using add_shards_from [of "add_shards new_counters m1" m2]
    by (simp add: add_shards_append)
  have zero: "instrs new_counters = 0" "total_switches new_counters = 0"
    "voluntary_switches new_counters = 0" "direct_switches new_counters = 0"
    "syscalls new_counters = 0" "maybe_blocking_syscalls new_counters = 0"
    "direct_switch_requests new_counters = 0" "waits new_counters = 0"
    by (simp_all add: new_counters_def)
  show ?thesis
    using hom by (simp add: add_shards_counts zero print_results_def Let_def)
qed

subsection \<open>Instructions after a run of core waits\<close>

text \<open>
  From a segment count at or above the quantum, instruction records of the input that the
  shard is on append no letter and the count is never put back to 0, as long as the 64-bit
  count does not wrap.
\<close>

lemma instrs_run_past_quantum:
  "instrs_of_input (prev_input shard) rs \<Longrightarrow>
   unat (knob_print_every tool) \<le> unat (cur_segment_instrs shard) \<Longrightarrow>
   unat (cur_segment_instrs shard) + length rs < 2 ^ 64 \<Longrightarrow>
   thread_sequence (snd (process_records ivt tool shard rs)) = thread_sequence shard
   \<and> unat (cur_segment_instrs (snd (process_records ivt tool shard rs)))
     = unat (cur_segment_instrs shard) + length rs
   \<and> instrs (counters (snd (process_records ivt tool shard rs)))
     = instrs (counters shard) + int (length rs)"
proof (induction rs arbitrary: shard)
  case Nil
  show ?case by simp
next
  case (Cons r rs)
  obtain stream memref where r: "r = (stream, memref)" by (cases r)
  let ?s1 = "snd (parallel_shard_memref ivt tool stream shard memref)"
  from Cons.prems(1) r have i: "type_is_instr (type memref)" "get_input_id stream = prev_input shard"
    and rest: "instrs_of_input (prev_input shard) rs"
    by (simp_all add: instrs_of_input_def)
  have nowrap: "unat (cur_segment_instrs shard) + 1 < 2 ^ 64"
    using Cons.prems(3) by simp
  have u: "unat (cur_segment_instrs shard + 1) = unat (cur_segment_instrs shard) + 1"
    using nowrap by (rule word_succ_no_wrap)
  have ne: "cur_segment_instrs shard + 1 \<noteq> knob_print_every tool"
  proof
    assume "cur_segment_instrs shard + 1 = knob_print_every tool"
    then have "unat (cur_segment_instrs shard + 1) = unat (knob_print_every tool)" by simp
    with u Cons.prems(2) show False by simp
  qed
  have p1: "prev_input ?s1 = prev_input shard" using i by (rule instr_same_input_step)
  have c1: "cur_segment_instrs ?s1 = cur_segment_instrs shard + 1"
    using instr_same_input_step(6) [OF i, of ivt tool] ne by simp
  have t1: "thread_sequence ?s1 = thread_sequence shard"
    using instr_same_input_step(7) [OF i, of ivt tool] ne by simp
  have n1: "instrs (counters ?s1) = instrs (counters shard) + 1"
    using i by (rule instr_same_input_step)
  from rest p1 have r1: "instrs_of_input (prev_input ?s1) rs" by simp
  have q1: "unat (knob_print_every tool) \<le> unat (cur_segment_instrs ?s1)"
    using Cons.prems(2) by (simp add: c1 u)
  have b1: "unat (cur_segment_instrs ?s1) + length rs < 2 ^ 64"
    using Cons.prems(3) by (simp add: c1 u)
  from Cons.IH [OF r1 q1 b1] show ?case
    by (simp add: r process_records_Cons c1 u t1 n1 del: process_records.simps(2))
qed

lemma idle_core_state:
  "snd (process_records 0 (schedule_stats_tool_create 2 0) (new_per_shard 0)
       [(stream_on 0, instr_memref 5),
        (stream_on 0, marker_memref 5 TRACE_MARKER_TYPE_CORE_WAIT 0),
        (stream_on 0, marker_memref 5 TRACE_MARKER_TYPE_CORE_WAIT 0),
        (stream_on 0, marker_memref 5 TRACE_MARKER_TYPE_CORE_WAIT 0),
        (stream_on 0, marker_memref 5 TRACE_MARKER_TYPE_CORE_WAIT 0)])
   = \<lparr>error = '''', core = 0,
      counters = \<lparr>threads = {5}, instrs = 1, total_switches = 0, voluntary_switches = 0,
        direct_switches = 0, syscalls = 0, maybe_blocking_syscalls = 0,
        direct_switch_requests = 0, waits = 4\<rparr>,
      prev_input = 0, saw_maybe_blocking = False, saw_exit = False,
      direct_switch_target = 0, thread_sequence = ''A--'', cur_segment_instrs = 3,
      prev_was_wait = True\<rparr>"
  by (simp add: run_defs)

text \<open>
  Claim C4. For instruction records of one unchanging input, with no marker between them,
  each record adds one to the instruction counter and to the segment count, the segment
  count goes back to 0 every \<open>print_every\<close> instructions with exactly one letter of the
  input appended at each reset, and each record clears the three flags. The code leaves
  the quantum marks out when the records follow a run of core waits that has passed the
  quantum, since the wait branch counts on without a reset: with a quantum of 2, an
  instruction of input 0 and four core waits leave the count at 3 with \<open>prev_input\<close> 0
  and the timeline \<open>A--\<close>; four more instructions of input 0 then append no letter and
  leave the count at 7, where two letters are due.
\<close>

theorem instruction_quantum_lost_after_waits:
  "thread_sequence (snd (process_records 0 (schedule_stats_tool_create 2 0) (new_per_shard 0)
       [(stream_on 0, instr_memref 5),
        (stream_on 0, marker_memref 5 TRACE_MARKER_TYPE_CORE_WAIT 0),
        (stream_on 0, marker_memref 5 TRACE_MARKER_TYPE_CORE_WAIT 0),
        (stream_on 0, marker_memref 5 TRACE_MARKER_TYPE_CORE_WAIT 0),
        (stream_on 0, marker_memref 5 TRACE_MARKER_TYPE_CORE_WAIT 0)])) = ''A--''
   \<and> cur_segment_instrs (snd (process_records 0 (schedule_stats_tool_create 2 0) (new_per_shard 0)
       [(stream_on 0, instr_memref 5),
        (stream_on 0, marker_memref 5 TRACE_MARKER_TYPE_CORE_WAIT 0),
        (stream_on 0, marker_memref 5 TRACE_MARKER_TYPE_CORE_WAIT 0),
        (stream_on 0, marker_memref 5 TRACE_MARKER_TYPE_CORE_WAIT 0),
        (stream_on 0, marker_memref 5 TRACE_MARKER_TYPE_CORE_WAIT 0)])) = 3
   \<and> prev_input (snd (process_records 0 (schedule_stats_tool_create 2 0) (new_per_shard 0)
       [(stream_on 0, instr_memref 5),
        (stream_on 0, marker_memref 5 TRACE_MARKER_TYPE_CORE_WAIT 0),
        (stream_on 0, marker_memref 5 TRACE_MARKER_TYPE_CORE_WAIT 0),
        (stream_on 0, marker_memref 5 TRACE_MARKER_TYPE_CORE_WAIT 0),
        (stream_on 0, marker_memref 5 TRACE_MARKER_TYPE_CORE_WAIT 0)])) = 0
   \<and> thread_sequence (snd (process_records 0 (schedule_stats_tool_create 2 0) (new_per_shard 0)
       [(stream_on 0, instr_memref 5),
        (stream_on 0, marker_memref 5 TRACE_MARKER_TYPE_CORE_WAIT 0),
        (stream_on 0, marker_memref 5 TRACE_MARKER_TYPE_CORE_WAIT 0),
        (stream_on 0, marker_memref 5 TRACE_MARKER_TYPE_CORE_WAIT 0),
        (stream_on 0, marker_memref 5 TRACE_MARKER_TYPE_CORE_WAIT 0),
        (stream_on 0, instr_memref 5), (stream_on 0, instr_memref 5),
        (stream_on 0, instr_memref 5), (stream_on 0, instr_memref 5)])) = ''A--''
   \<and> unat (cur_segment_instrs (snd (process_records 0 (schedule_stats_tool_create 2 0)
       (new_per_shard 0)
       [(stream_on 0, instr_memref 5),
        (stream_on 0, marker_memref 5 TRACE_MARKER_TYPE_CORE_WAIT 0),
        (stream_on 0, marker_memref 5 TRACE_MARKER_TYPE_CORE_WAIT 0),
        (stream_on 0, marker_memref 5 TRACE_MARKER_TYPE_CORE_WAIT 0),
        (stream_on 0, marker_memref 5 TRACE_MARKER_TYPE_CORE_WAIT 0),
        (stream_on 0, instr_memref 5), (stream_on 0, instr_memref 5),
        (stream_on 0, instr_memref 5), (stream_on 0, instr_memref 5)]))) = 7
   \<and> instrs (counters (snd (process_records 0 (schedule_stats_tool_create 2 0) (new_per_shard 0)
       [(stream_on 0, instr_memref 5),
        (stream_on 0, marker_memref 5 TRACE_MARKER_TYPE_CORE_WAIT 0),
        (stream_on 0, marker_memref 5 TRACE_MARKER_TYPE_CORE_WAIT 0),
        (stream_on 0, marker_memref 5 TRACE_MARKER_TYPE_CORE_WAIT 0),
        (stream_on 0, marker_memref 5 TRACE_MARKER_TYPE_CORE_WAIT 0),
        (stream_on 0, instr_memref 5), (stream_on 0, instr_memref 5),
        (stream_on 0, instr_memref 5), (stream_on 0, instr_memref 5)]))) = 5"
proof -
  let ?tool = "schedule_stats_tool_create 2 0"
  let ?idle = "[(stream_on 0, instr_memref 5),
        (stream_on 0, marker_memref 5 TRACE_MARKER_TYPE_CORE_WAIT 0),
        (stream_on 0, marker_memref 5 TRACE_MARKER_TYPE_CORE_WAIT 0),
        (stream_on 0, marker_memref 5 TRACE_MARKER_TYPE_CORE_WAIT 0),
        (stream_on 0, marker_memref 5 TRACE_MARKER_TYPE_CORE_WAIT 0)]"
  let ?resume = "[(stream_on 0, instr_memref 5), (stream_on 0, instr_memref 5),
        (stream_on 0, instr_memref 5), (stream_on 0, instr_memref 5)]"
  let ?s = "snd (process_records 0 ?tool (new_per_shard 0) ?idle)"
  have fields: "thread_sequence ?s = ''A--''" "cur_segment_instrs ?s = 3" "prev_input ?s = 0"
    "instrs (counters ?s) = 1"
    by (simp_all only: idle_core_state per_shard_t.simps counters_t.simps)
  have run: "instrs_of_input (prev_input ?s) ?resume"
    unfolding fields
    by (simp add: instrs_of_input_def stream_on_def instr_memref_def type_is_instr_def)
  have quantum: "unat (knob_print_every ?tool) \<le> unat (cur_segment_instrs ?s)"
    unfolding fields by (simp add: schedule_stats_tool_create_def)
  have bound: "unat (cur_segment_instrs ?s) + length ?resume < 2 ^ 64"
    unfolding fields by simp
  have split: "snd (process_records 0 ?tool (new_per_shard 0) (?idle @ ?resume))
      = snd (process_records 0 ?tool ?s ?resume)"
    by (rule process_records_append)
  have after: "thread_sequence (snd (process_records 0 ?tool ?s ?resume)) = ''A--''"
    "unat (cur_segment_instrs (snd (process_records 0 ?tool ?s ?resume))) = 7"
    "instrs (counters (snd (process_records 0 ?tool ?s ?resume))) = 5"
    using instrs_run_past_quantum [OF run quantum bound, of 0]
    by (simp_all only: fields, simp_all)
  have list: "?idle @ ?resume =
       [(stream_on 0, instr_memref 5),
        (stream_on 0, marker_memref 5 TRACE_MARKER_TYPE_CORE_WAIT 0),
        (stream_on 0, marker_memref 5 TRACE_MARKER_TYPE_CORE_WAIT 0),
        (stream_on 0, marker_memref 5 TRACE_MARKER_TYPE_CORE_WAIT 0),
        (stream_on 0, marker_memref 5 TRACE_MARKER_TYPE_CORE_WAIT 0),
        (stream_on 0, instr_memref 5), (stream_on 0, instr_memref 5),
        (stream_on 0, instr_memref 5), (stream_on 0, instr_memref 5)]"
    by simp
  show ?thesis
    using fields(1,2,3) after
    unfolding split [symmetric] list
    by (intro conjI)
qed

end
